theory Spec2Isabelle
  imports Complex_Main
begin

section \<open>JavaScript strings and the built-ins the code uses\<close>

text \<open>
  A JavaScript string is a sequence of UTF-16 code units, and \<open>length\<close>,
  \<open>substring\<close>, \<open>startsWith\<close> and \<open>includes\<close> all count code units. A code
  unit is modelled as a natural number and a string as a list of them; \<open>lit\<close> reads
  an ASCII literal of the source. Characters outside ASCII that occur in the templates of
  the source are spelled out as code units below.
\<close>

type_synonym jstring = "nat list"

definition lit :: "string \<Rightarrow> jstring" where
  "lit s = map of_char s"

text \<open>
  The class \<open>\s\<close> of a regular expression and the characters removed by
  \<open>String.prototype.trim\<close> are the same set: WhiteSpace and LineTerminator of
  ECMAScript.
\<close>

definition isWhitespace :: "nat \<Rightarrow> bool" where
  "isWhitespace c \<longleftrightarrow>
     c \<in> {9, 10, 11, 12, 13, 32, 160, 5760, 8232, 8233, 8239, 8287, 12288, 65279}
     \<or> (8192 \<le> c \<and> c \<le> 8202)"

text \<open>The class \<open>\d\<close>: the ten ASCII digits.\<close>

definition isDigit :: "nat \<Rightarrow> bool" where
  "isDigit c \<longleftrightarrow> 48 \<le> c \<and> c \<le> 57"

definition trim :: "jstring \<Rightarrow> jstring" where
  "trim s = rev (dropWhile isWhitespace (rev (dropWhile isWhitespace s)))"

fun startsWith :: "jstring \<Rightarrow> jstring \<Rightarrow> bool" where
  "startsWith s [] = True"
| "startsWith [] (p # ps) = False"
| "startsWith (c # cs) (p # ps) = (c = p \<and> startsWith cs ps)"

text \<open>\<open>s.includes(sub)\<close>; the name \<open>includes\<close> is reserved in Isabelle.\<close>

fun includesStr :: "jstring \<Rightarrow> jstring \<Rightarrow> bool" where
  "includesStr [] sub = (sub = [])"
| "includesStr (c # cs) sub = (startsWith (c # cs) sub \<or> includesStr cs sub)"

text \<open>\<open>xs.join(sep)\<close> on an array of strings.\<close>

fun join :: "jstring \<Rightarrow> jstring list \<Rightarrow> jstring" where
  "join sep [] = []"
| "join sep [x] = x"
| "join sep (x # y # ys) = x @ sep @ join sep (y # ys)"

text \<open>
  \<open>/^\d{lo,hi}$/.test(s)\<close>: without the \<open>m\<close> flag, \<open>$\<close> matches at the end
  of the input only.
\<close>

definition digitsBetween :: "nat \<Rightarrow> nat \<Rightarrow> jstring \<Rightarrow> bool" where
  "digitsBetween lo hi s \<longleftrightarrow> lo \<le> length s \<and> length s \<le> hi \<and> list_all isDigit s"

text \<open>
  The decimal rendering of an integer, as a template literal renders a number that
  holds an integer (below \<open>10^21\<close> in magnitude, where JavaScript switches to
  exponent notation; IEEE rounding of numbers is not modelled).
\<close>

fun showNat :: "nat \<Rightarrow> jstring" where
  "showNat n = (if n < 10 then [48 + n] else showNat (n div 10) @ [48 + n mod 10])"

declare showNat.simps [simp del]

definition showInt :: "int \<Rightarrow> jstring" where
  "showInt i = (if i < 0 then 45 # showNat (nat (- i)) else showNat (nat i))"

section \<open>Phone Normalizer\<close>

text \<open>
  The hardened \<open>normalizePhoneNumber\<close>. Its first lines compute \<open>cleaned\<close>:
  \<open>phone.replace(/[\s\-()]/g, "").trim()\<close>, then one leading \<open>+\<close> is cut.
\<close>

definition cleanedInput :: "jstring \<Rightarrow> jstring" where
  "cleanedInput phone =
     (let cleaned = trim (filter (\<lambda>c. \<not> (isWhitespace c \<or> c = 45 \<or> c = 40 \<or> c = 41)) phone)
      in if startsWith cleaned (lit ''+'') then drop 1 cleaned else cleaned)"

text \<open>
  \<open>None\<close> is the \<open>null\<close> the function returns; an absent argument
  (\<open>undefined\<close> or \<open>null\<close>) is \<open>None\<close> too, and the empty string is falsy.
\<close>

definition normalizePhoneNumber :: "jstring option \<Rightarrow> jstring \<Rightarrow> jstring option" where
  "normalizePhoneNumber phone defaultCountryCode =
     (case phone of
        None \<Rightarrow> None
      | Some p \<Rightarrow>
          if p = [] then None
          else
            let cleaned = cleanedInput p in
            if \<not> digitsBetween 9 15 cleaned then None
            else
              let cleaned1 =
                    (if startsWith cleaned (lit ''0'') \<and> length cleaned = 10
                     then defaultCountryCode @ drop 1 cleaned else cleaned);
                  cleaned2 =
                    (if length cleaned1 = 9 \<and> digitsBetween 9 9 cleaned1
                     then defaultCountryCode @ cleaned1 else cleaned1)
              in if \<not> digitsBetween 10 15 cleaned2 then None else Some cleaned2)"

section \<open>Data model\<close>

record OrderItem =
  name :: jstring
  quantity :: int

record PickupOrderRequest =
  customerName :: jstring
  pickupAddress :: jstring
  pickupDateTime :: "jstring option"
  items :: "OrderItem list"
  customerNotes :: "jstring option"
  customerPhone :: "jstring option"

text \<open>The \<open>MessagingResult\<close> of the specification.\<close>

record WhatsAppResponse =
  success :: bool
  messageId :: "jstring option"
  error :: "jstring option"

definition sendFailed :: "jstring \<Rightarrow> WhatsAppResponse" where
  "sendFailed e = \<lparr>success = False, messageId = None, error = Some e\<rparr>"

text \<open>
  A thrown value: an instance of \<open>Error\<close> with its message, an instance of
  \<open>Error\<close> whose \<open>message\<close> is not a string (the SDK builds its error from
  the body of the provider's answer, which may have no \<open>message\<close>), or a value
  that is no \<open>Error\<close>. A function that may throw returns \<open>js_exn + 'a\<close>,
  with \<open>Inl\<close> the exception that leaves it; an \<open>async\<close> function that
  rejects is modelled the same way.
\<close>

datatype js_exn = JsError jstring | MessagelessError | NonError

text \<open>
  The TypeError of a method call on \<open>undefined\<close>, as
  \<open>error.message.includes(...)\<close> raises it when there is no message.
\<close>

definition includesTypeError :: js_exn where
  "includesTypeError =
     JsError (lit ''Cannot read properties of undefined (reading '' @ [39] @ lit ''includes''
              @ [39] @ lit '')'')"

text \<open>
  What the code reads from its surroundings. \<open>new Date(s)\<close> followed by
  \<open>toLocaleString("en-US", options)\<close> is one function per set of options (the order
  message uses the short names, the confirmation the long ones); \<open>now\<close> is
  \<open>new Date().toLocaleString()\<close> at the time of the call. \<open>newOrderId\<close> is what
  \<open>generateOrderId\<close> returns (it reads the clock and \<open>Math.random\<close>), and
  \<open>jsonParse\<close> is \<open>JSON.parse\<close>, with \<open>None\<close> for a SyntaxError.
\<close>

datatype date_result = InvalidDate | Rendered jstring | DateThrows

datatype json = JNull | JBool bool | JNum rat | JStr jstring | JArr "json list"
  | JObj "(jstring \<times> json) list"

record platform =
  dateShort :: "jstring \<Rightarrow> date_result"
  dateLong :: "jstring \<Rightarrow> date_result"
  now :: jstring
  newOrderId :: jstring
  jsonParse :: "jstring \<Rightarrow> json option"

text \<open>
  \<open>process.env\<close>, restricted to the variables the code reads. \<open>envDebug\<close>
  is the listing of variable names that \<open>sendPickupOrderToDryCleaner\<close> computes from
  all keys of the environment for its error message.
\<close>

record environment =
  DRY_CLEANER_WHATSAPP_NUMBER :: "jstring option"
  TWILIO_ACCOUNT_SID :: "jstring option"
  TWILIO_AUTH_TOKEN :: "jstring option"
  TWILIO_WHATSAPP_NUMBER :: "jstring option"
  WHATSAPP_ACCESS_TOKEN :: "jstring option"
  WHATSAPP_PHONE_NUMBER_ID :: "jstring option"
  WHATSAPP_API_VERSION :: "jstring option"
  envDebug :: jstring

text \<open>\<open>!v\<close> for a value that is a string or absent.\<close>

definition falsy :: "jstring option \<Rightarrow> bool" where
  "falsy v \<longleftrightarrow> v = None \<or> v = Some []"

definition nl :: jstring where
  "nl = [10]"

section \<open>Message Formatter\<close>

definition itemLine :: "OrderItem \<Rightarrow> jstring" where
  "itemLine item = lit ''  '' @ [8226] @ lit '' '' @ showInt (quantity item) @ lit ''x '' @ name item"

definition pickupTimeFormatted :: "platform \<Rightarrow> jstring option \<Rightarrow> jstring" where
  "pickupTimeFormatted p dt =
     (if falsy dt then lit ''Not specified''
      else case dateShort p (the dt) of
             InvalidDate \<Rightarrow> the dt
           | Rendered t \<Rightarrow> t
           | DateThrows \<Rightarrow> the dt)"

definition formatPickupOrderMessage :: "platform \<Rightarrow> PickupOrderRequest \<Rightarrow> jstring" where
  "formatPickupOrderMessage p order =
     (let itemsList = join nl (map itemLine (items order));
          m1 = [55358, 56826] @ lit '' *NEW PICKUP ORDER*'' @ nl @ nl;
          m2 = m1 @ [55357, 56523] @ lit '' *Customer:* '' @ customerName order @ nl;
          m3 = m2 @ [55357, 56525] @ lit '' *Address:* '' @ pickupAddress order @ nl;
          m4 = m3 @ [9200] @ lit '' *Preferred Pickup:* ''
                  @ pickupTimeFormatted p (pickupDateTime order) @ nl @ nl;
          m5 = m4 @ [55357, 56550] @ lit '' *Items:*'' @ nl @ itemsList @ nl;
          m6 = (if \<not> falsy (customerNotes order) \<and> trim (the (customerNotes order)) \<noteq> []
                then m5 @ nl @ [55357, 56541] @ lit '' *Notes:*'' @ nl
                        @ trim (the (customerNotes order)) @ nl
                else m5)
      in m6 @ nl @ lit ''_Order received at '' @ now p @ lit ''_'')"

definition confirmationTimeFormatted :: "platform \<Rightarrow> jstring \<Rightarrow> jstring" where
  "confirmationTimeFormatted p dt =
     (if dt = [] then lit ''your preferred time''
      else case dateLong p dt of
             InvalidDate \<Rightarrow> dt
           | Rendered t \<Rightarrow> t
           | DateThrows \<Rightarrow> dt)"

definition formatCustomerConfirmationMessage :: "platform \<Rightarrow> jstring \<Rightarrow> jstring \<Rightarrow> jstring" where
  "formatCustomerConfirmationMessage p customerName' pickupDateTime' =
     [9989] @ lit '' *Order Confirmed*'' @ nl @ nl
     @ lit ''Hi '' @ customerName' @ lit ''! '' @ [55357, 56395] @ nl @ nl
     @ lit ''Thank you for choosing LaundryPro! Your pickup order has been received.'' @ nl @ nl
     @ [55357, 56517] @ lit '' *Scheduled Pickup:* ''
     @ confirmationTimeFormatted p pickupDateTime' @ nl @ nl
     @ lit ''We'' @ [39] @ lit ''ll send you a reminder before pickup. If you need to make any changes, please contact us.''
     @ nl @ nl
     @ lit ''Thank you! '' @ [55357, 56911]"

section \<open>Messaging Gateway: the SDK-based provider\<close>

text \<open>
  The Twilio SDK as the code uses it. \<open>construct\<close> is \<open>twilio(accountSid,
  authToken)\<close>, which may throw; \<open>create\<close> is \<open>client.messages.create\<close>
  raced against the timer of 30 seconds: the promise resolves with a response object
  (carrying its \<open>sid\<close>, or none), resolves with no object, rejects, or is still
  pending when the timer fires.
\<close>

record twilio_request =
  tw_from :: jstring
  tw_to :: jstring
  tw_body :: jstring

datatype twilio_outcome =
    Resolved "jstring option"
  | ResolvedEmpty
  | Rejected js_exn
  | Pending

record twilio_sdk =
  construct :: "jstring \<Rightarrow> jstring \<Rightarrow> js_exn option"
  create :: "twilio_request \<Rightarrow> twilio_outcome"

text \<open>\<open>getTwilioClient\<close> returns the sending number, or throws.\<close>

definition getTwilioClient :: "environment \<Rightarrow> twilio_sdk \<Rightarrow> js_exn + jstring" where
  "getTwilioClient env sdk =
     (let accountSid = TWILIO_ACCOUNT_SID env;
          authToken = TWILIO_AUTH_TOKEN env;
          twilioWhatsAppNumber = TWILIO_WHATSAPP_NUMBER env
      in if falsy accountSid \<or> falsy authToken \<or> falsy twilioWhatsAppNumber then
           let missingVars =
                 (if falsy accountSid then [lit ''TWILIO_ACCOUNT_SID''] else [])
                 @ (if falsy authToken then [lit ''TWILIO_AUTH_TOKEN''] else [])
                 @ (if falsy twilioWhatsAppNumber then [lit ''TWILIO_WHATSAPP_NUMBER''] else [])
           in Inl (JsError (lit ''Missing required Twilio environment variables: ''
                            @ join (lit '', '') missingVars @ lit ''. ''
                            @ lit ''Please set these in your deployment environment variables.''))
         else case construct sdk (the accountSid) (the authToken) of
                Some e \<Rightarrow> Inl e
              | None \<Rightarrow> Inr (the twilioWhatsAppNumber))"

text \<open>\<open>s.replace(/^prefix/, "")\<close> for a literal prefix.\<close>

definition stripPrefix :: "jstring \<Rightarrow> jstring \<Rightarrow> jstring" where
  "stripPrefix pre s = (if startsWith s pre then drop (length pre) s else s)"

text \<open>The body of the \<open>try\<close> block, with the requests it issued.\<close>

definition twilioTry ::
  "environment \<Rightarrow> twilio_sdk \<Rightarrow> jstring \<Rightarrow> jstring
    \<Rightarrow> (js_exn + WhatsAppResponse) \<times> twilio_request list" where
  "twilioTry env sdk to message =
     (case getTwilioClient env sdk of
        Inl e \<Rightarrow> (Inl e, [])
      | Inr whatsAppNumber \<Rightarrow>
          let cleanTo = trim (stripPrefix (lit ''+'') (stripPrefix (lit ''whatsapp:'') to)) in
          if \<not> digitsBetween 10 15 cleanTo then
            (Inr (sendFailed (lit ''Invalid phone number format: '' @ to
                              @ lit ''. Expected 10-15 digits.'')), [])
          else
            let request = \<lparr>tw_from = trim whatsAppNumber,
                           tw_to = lit ''whatsapp:'' @ trim to,
                           tw_body = take 4096 message\<rparr>
            in (case create sdk request of
                  Pending \<Rightarrow>
                    Inl (JsError (lit ''Request timeout: Twilio API call exceeded 30 seconds''))
                | Rejected e \<Rightarrow> Inl e
                | ResolvedEmpty \<Rightarrow>
                    Inr (sendFailed (lit ''Twilio returned an invalid response (missing message SID).''))
                | Resolved sid \<Rightarrow>
                    if falsy sid then
                      Inr (sendFailed (lit ''Twilio returned an invalid response (missing message SID).''))
                    else Inr \<lparr>success = True, messageId = sid, error = None\<rparr>,
                [request]))"

text \<open>
  The \<open>catch\<close> block. For an instance of \<open>Error\<close> it calls
  \<open>error.message.includes("timeout")\<close> first, with no test that the message is a
  string: without a message that call throws, and the exception leaves the block.
\<close>

definition twilioCatch :: "js_exn \<Rightarrow> js_exn + WhatsAppResponse" where
  "twilioCatch e =
     (case e of
        NonError \<Rightarrow>
          Inr (sendFailed (lit ''Unknown error occurred while sending WhatsApp message''))
      | MessagelessError \<Rightarrow> Inl includesTypeError
      | JsError m \<Rightarrow>
          if includesStr m (lit ''timeout'') then
            Inr (sendFailed (lit ''Request timeout: The messaging service did not respond in time. Please try again.''))
          else if includesStr m (lit ''Invalid'') \<or> includesStr m (lit ''invalid'') then
            Inr (sendFailed (lit ''Invalid request: '' @ m
                             @ lit ''. Please check phone number format and credentials.''))
          else if includesStr m (lit ''Authentication'') then
            Inr (sendFailed (lit ''Authentication failed: Please check your Twilio credentials (TWILIO_ACCOUNT_SID and TWILIO_AUTH_TOKEN).''))
          else if includesStr m (lit ''not in allowed list'') then
            Inr (sendFailed (lit ''Phone number not in allowed list: The recipient number must be added to your Twilio allowed list for WhatsApp.''))
          else Inr (sendFailed m))"

text \<open>
  The hardened \<open>sendWhatsAppMessageTwilio\<close>. An argument that is not a string
  (\<open>undefined\<close>, \<open>null\<close>, any other type) is \<open>None\<close>. The result is
  \<open>Inl\<close> when an exception leaves the function, and comes with the requests sent to
  the provider.
\<close>

definition sendWhatsAppMessageTwilio ::
  "environment \<Rightarrow> twilio_sdk \<Rightarrow> jstring option \<Rightarrow> jstring option
    \<Rightarrow> (js_exn + WhatsAppResponse) \<times> twilio_request list" where
  "sendWhatsAppMessageTwilio env sdk to message =
     (if falsy to \<or> trim (the to) = [] then
        (Inr (sendFailed (lit ''Recipient phone number is required.'')), [])
      else if falsy message \<or> trim (the message) = [] then
        (Inr (sendFailed (lit ''Message content is required.'')), [])
      else if length (the message) > 4096 then
        (Inr (sendFailed (lit ''Message is too long ('' @ showNat (length (the message))
                          @ lit '' characters). Maximum allowed is 4096 characters.'')), [])
      else case twilioTry env sdk (the to) (the message) of
             (Inl e, sent) \<Rightarrow> (twilioCatch e, sent)
           | (Inr r, sent) \<Rightarrow> (Inr r, sent))"

section \<open>Messaging Gateway: the webhook-based provider\<close>

text \<open>
  The HTTP exchange of \<open>sendWhatsAppMessage\<close>. A response carries \<open>ok\<close>,
  \<open>status\<close>, \<open>statusText\<close> and the outcome of \<open>response.json()\<close>: a rejection,
  or the parsed object, of which the code reads \<open>error\<close> (with its \<open>message\<close>
  and \<open>code\<close>) and \<open>messages?.[0]?.id\<close>. A body that is not an object makes the
  property reads throw, which is the path of a rejected \<open>json()\<close>. The provider
  answers a request knowing how many requests came before it. \<open>fetch\<close> settles:
  the runtime rejects a request that gets no answer within its own time limits.
\<close>

record api_error =
  err_message :: "jstring option"
  err_code :: "int option"

record api_data =
  data_error :: "api_error option"
  data_message_id :: "jstring option"

datatype json_outcome = JsonRejected js_exn | JsonValue api_data

record http_response =
  resp_ok :: bool
  resp_status :: nat
  resp_statusText :: jstring
  resp_json :: json_outcome

datatype fetch_outcome = FetchRejected js_exn | FetchResolved http_response

record wa_request =
  wa_url :: jstring
  wa_authorization :: jstring
  wa_to :: jstring
  wa_text :: jstring

record WhatsAppConfig =
  accessToken :: jstring
  phoneNumberId :: jstring
  apiVersion :: jstring
  baseUrl :: jstring

definition getWhatsAppConfig :: "environment \<Rightarrow> js_exn + WhatsAppConfig" where
  "getWhatsAppConfig env =
     (let apiVersion' = (if falsy (WHATSAPP_API_VERSION env) then lit ''v18.0''
                         else the (WHATSAPP_API_VERSION env))
      in if falsy (WHATSAPP_ACCESS_TOKEN env) then
           Inl (JsError (lit ''WHATSAPP_ACCESS_TOKEN environment variable is required''))
         else if falsy (WHATSAPP_PHONE_NUMBER_ID env) then
           Inl (JsError (lit ''WHATSAPP_PHONE_NUMBER_ID environment variable is required''))
         else Inr \<lparr>accessToken = the (WHATSAPP_ACCESS_TOKEN env),
                   phoneNumberId = the (WHATSAPP_PHONE_NUMBER_ID env),
                   apiVersion = apiVersion',
                   baseUrl = lit ''https://graph.facebook.com/'' @ apiVersion' @ lit ''/''
                             @ the (WHATSAPP_PHONE_NUMBER_ID env) @ lit ''/messages''\<rparr>)"

definition waRequest :: "WhatsAppConfig \<Rightarrow> jstring \<Rightarrow> jstring \<Rightarrow> wa_request" where
  "waRequest config to message =
     \<lparr>wa_url = baseUrl config,
      wa_authorization = lit ''Bearer '' @ accessToken config,
      wa_to = to,
      wa_text = message\<rparr>"

text \<open>
  \<open>data.error && (data.error.message?.includes("not in allowed list") ||
  data.error.code === 131031)\<close>
\<close>

definition allowedListError :: "api_data \<Rightarrow> bool" where
  "allowedListError d =
     (case data_error d of
        None \<Rightarrow> False
      | Some e \<Rightarrow>
          (case err_message e of None \<Rightarrow> False
                               | Some m \<Rightarrow> includesStr m (lit ''not in allowed list''))
          \<or> err_code e = Some 131031)"

text \<open>
  The consolidated message of the \<open>!response.ok\<close> branch; \<open>details\<close> is
  \<open>JSON.stringify(errorDetails)\<close>.
\<close>

definition allowedListHelp :: "jstring \<Rightarrow> jstring \<Rightarrow> jstring" where
  "allowedListHelp phoneNumber details =
     lit ''Recipient number not in allowed list.'' @ nl @ nl
     @ lit ''Number being sent to API: '' @ phoneNumber @ nl
     @ lit ''Number with + prefix: +'' @ phoneNumber @ nl @ nl
     @ lit ''IMPORTANT: Make sure this number is in your Meta allowed recipient list.'' @ nl @ nl
     @ lit ''In Meta Business Suite:'' @ nl
     @ lit ''1. Go to WhatsApp '' @ [8594] @ lit '' API Setup '' @ [8594] @ lit '' ''
       @ [34] @ lit ''To'' @ [34] @ lit '' field settings'' @ nl
     @ lit ''2. Add the number: '' @ phoneNumber @ lit '' (digits only, without + prefix)'' @ nl
     @ lit ''3. Meta UI may show it as +'' @ phoneNumber @ lit '', but add it as '' @ phoneNumber @ nl
     @ lit ''4. Wait a few minutes after adding before trying again'' @ nl @ nl
     @ lit ''Note: If your .env has a local format (e.g., 0792875310), it''
       @ [39] @ lit ''s automatically converted to '' @ phoneNumber @ nl @ nl
     @ lit ''Full API error: '' @ details"

text \<open>What the function returns once the last response and its data are known.\<close>

definition waResult ::
  "(api_error option \<Rightarrow> jstring) \<Rightarrow> jstring \<Rightarrow> http_response \<Rightarrow> api_data \<Rightarrow> WhatsAppResponse" where
  "waResult stringify phoneNumber response d =
     (if \<not> resp_ok response then
        let fromError = (case data_error d of None \<Rightarrow> None | Some e \<Rightarrow> err_message e);
            errorMessage =
              (if falsy fromError
               then lit ''HTTP '' @ showNat (resp_status response) @ lit '': ''
                    @ resp_statusText response
               else the fromError);
            errorCode = (case data_error d of None \<Rightarrow> None | Some e \<Rightarrow> err_code e);
            errorDetails = data_error d
        in if includesStr errorMessage (lit ''not in allowed list'') \<or> errorCode = Some 131031
           then sendFailed (allowedListHelp phoneNumber (stringify errorDetails))
           else sendFailed errorMessage
      else \<lparr>success = True, messageId = data_message_id d, error = None\<rparr>)"

text \<open>\<open>to.replace(/[\s+\-()]/g, "").trim()\<close>\<close>

definition cleanedDestination :: "jstring \<Rightarrow> jstring" where
  "cleanedDestination to =
     trim (filter (\<lambda>c. \<not> (isWhitespace c \<or> c = 43 \<or> c = 45 \<or> c = 40 \<or> c = 41)) to)"

text \<open>The body of the \<open>try\<close> block, with the requests it issued, in order.\<close>

definition waTry ::
  "environment \<Rightarrow> (api_error option \<Rightarrow> jstring) \<Rightarrow> (nat \<Rightarrow> wa_request \<Rightarrow> fetch_outcome)
    \<Rightarrow> jstring \<Rightarrow> jstring \<Rightarrow> (js_exn + WhatsAppResponse) \<times> wa_request list" where
  "waTry env stringify fetch to message =
     (case getWhatsAppConfig env of
        Inl e \<Rightarrow> (Inl e, [])
      | Inr config \<Rightarrow>
          let phoneNumber = cleanedDestination to
          in if \<not> digitsBetween 10 15 phoneNumber then
               (Inr (sendFailed
                  (lit ''Invalid phone number format: '' @ to @ lit '' (cleaned to: ''
                   @ phoneNumber
                   @ lit ''). Expected 10-15 digits in international format (e.g., 250792875310 for Rwanda).'')),
                [])
             else
               let first = waRequest config phoneNumber message in
               (case fetch 0 first of
                  FetchRejected e \<Rightarrow> (Inl e, [first])
                | FetchResolved response \<Rightarrow>
                    (case resp_json response of
                       JsonRejected e \<Rightarrow> (Inl e, [first])
                     | JsonValue d \<Rightarrow>
                         if \<not> resp_ok response \<and> allowedListError d then
                           let second = waRequest config (lit ''+'' @ phoneNumber) message in
                           (case fetch 1 second of
                              FetchRejected e \<Rightarrow> (Inl e, [first, second])
                            | FetchResolved response2 \<Rightarrow>
                                (case resp_json response2 of
                                   JsonRejected e \<Rightarrow> (Inl e, [first, second])
                                 | JsonValue d2 \<Rightarrow>
                                     (Inr (waResult stringify phoneNumber response2 d2),
                                      [first, second])))
                         else (Inr (waResult stringify phoneNumber response d), [first]))))"

text \<open>
  \<open>sendWhatsAppMessage\<close>: the \<open>try\<close> block and its \<open>catch\<close>, which
  reads \<open>error.message\<close> without calling anything on it; an \<open>Error\<close>
  with no message gives a result whose \<open>error\<close> is \<open>undefined\<close>.
\<close>

definition sendWhatsAppMessage ::
  "environment \<Rightarrow> (api_error option \<Rightarrow> jstring) \<Rightarrow> (nat \<Rightarrow> wa_request \<Rightarrow> fetch_outcome)
    \<Rightarrow> jstring \<Rightarrow> jstring \<Rightarrow> (js_exn + WhatsAppResponse) \<times> wa_request list" where
  "sendWhatsAppMessage env stringify fetch to message =
     (case waTry env stringify fetch to message of
        (Inl (JsError m), sent) \<Rightarrow> (Inr (sendFailed m), sent)
      | (Inl MessagelessError, sent) \<Rightarrow>
          (Inr \<lparr>success = False, messageId = None, error = None\<rparr>, sent)
      | (Inl NonError, sent) \<Rightarrow> (Inr (sendFailed (lit ''Unknown error occurred'')), sent)
      | (Inr r, sent) \<Rightarrow> (Inr r, sent))"

section \<open>The two sends of the Order Intake Handler\<close>

definition sendPickupOrderToDryCleaner ::
  "environment \<Rightarrow> platform \<Rightarrow> twilio_sdk \<Rightarrow> PickupOrderRequest
    \<Rightarrow> (js_exn + WhatsAppResponse) \<times> twilio_request list" where
  "sendPickupOrderToDryCleaner env p sdk order =
     (let dryCleanerPhone = DRY_CLEANER_WHATSAPP_NUMBER env in
      if falsy dryCleanerPhone then
        (Inr (sendFailed
           (lit ''DRY_CLEANER_WHATSAPP_NUMBER environment variable is not set. Found env vars: ''
            @ (if envDebug env = [] then lit ''none'' else envDebug env)
            @ lit ''. Please check your .env file and restart the server.'')), [])
      else
        case normalizePhoneNumber dryCleanerPhone (lit ''250'') of
          None \<Rightarrow>
            (Inr (sendFailed
               (lit ''Invalid dry cleaner phone number format: '' @ the dryCleanerPhone
                @ lit ''. Expected a valid international phone number (10-15 digits).'')), [])
        | Some normalizedPhoneNumber \<Rightarrow>
            let normalizedPhone = lit ''+'' @ normalizedPhoneNumber;
                message = formatPickupOrderMessage p order
            in if length message > 4096 then
                 (Inr (sendFailed
                    (lit ''Order message is too long ('' @ showNat (length message)
                     @ lit '' characters). Maximum allowed is 4096 characters.'')), [])
               else sendWhatsAppMessageTwilio env sdk (Some normalizedPhone) (Some message))"

definition sendCustomerConfirmation ::
  "environment \<Rightarrow> platform \<Rightarrow> twilio_sdk \<Rightarrow> jstring \<Rightarrow> jstring \<Rightarrow> jstring
    \<Rightarrow> (js_exn + WhatsAppResponse) \<times> twilio_request list" where
  "sendCustomerConfirmation env p sdk customerPhone' customerName' pickupDateTime' =
     (case normalizePhoneNumber (Some customerPhone') (lit ''250'') of
        None \<Rightarrow>
          (Inr (sendFailed
             (lit ''Invalid customer phone number format: '' @ customerPhone'
              @ lit ''. Expected a valid international phone number (10-15 digits).'')), [])
      | Some normalizedPhoneNumber \<Rightarrow>
          let sanitizedName = take 100 (trim customerName') in
          if sanitizedName = [] then
            (Inr (sendFailed (lit ''Customer name is required and cannot be empty.'')), [])
          else
            let normalizedPhone = lit ''+'' @ normalizedPhoneNumber;
                message = formatCustomerConfirmationMessage p sanitizedName pickupDateTime'
            in if length message > 4096 then
                 (Inr (sendFailed
                    (lit ''Confirmation message is too long ('' @ showNat (length message)
                     @ lit '' characters). Maximum allowed is 4096 characters.'')), [])
               else sendWhatsAppMessageTwilio env sdk (Some normalizedPhone) (Some message))"

section \<open>Intake schema\<close>

text \<open>
  \<open>orderSchema\<close> is declared with the validation library zod (version 3: the handlers
  read \<open>error.errors\<close>). \<open>safeParse\<close> walks the value along the schema and
  collects issues, each with the path of the offending field and a message; the messages
  the schema does not set are the library's defaults. An exception thrown by a callback
  of the schema is not caught by the library: it leaves \<open>safeParse\<close>.
\<close>

datatype path_elem = Key jstring | Index nat

type_synonym issue = "path_elem list \<times> jstring"

datatype 'a parsed = Valid 'a | Issues "issue list" | Throws js_exn

text \<open>
  Two parts of an object, or an element and the rest of an array, parsed one after the
  other: the exception of the first one wins, issues add up.
\<close>

fun both :: "'a parsed \<Rightarrow> 'b parsed \<Rightarrow> ('a \<times> 'b) parsed" where
  "both (Throws e) _ = Throws e"
| "both _ (Throws e) = Throws e"
| "both (Valid a) (Valid b) = Valid (a, b)"
| "both (Issues i) (Valid b) = Issues i"
| "both (Valid a) (Issues j) = Issues j"
| "both (Issues i) (Issues j) = Issues (i @ j)"

fun mapParsed :: "('a \<Rightarrow> 'b) \<Rightarrow> 'a parsed \<Rightarrow> 'b parsed" where
  "mapParsed f (Valid a) = Valid (f a)"
| "mapParsed f (Issues i) = Issues i"
| "mapParsed f (Throws e) = Throws e"

text \<open>The name of the type a value was received with, as the default messages print it.\<close>

fun receivedType :: "json \<Rightarrow> jstring" where
  "receivedType JNull = lit ''null''"
| "receivedType (JBool b) = lit ''boolean''"
| "receivedType (JNum q) = lit ''number''"
| "receivedType (JStr s) = lit ''string''"
| "receivedType (JArr xs) = lit ''array''"
| "receivedType (JObj kvs) = lit ''object''"

definition invalidType :: "path_elem list \<Rightarrow> jstring \<Rightarrow> json option \<Rightarrow> issue" where
  "invalidType path expected v =
     (case v of
        None \<Rightarrow> (path, lit ''Required'')
      | Some j \<Rightarrow> (path, lit ''Expected '' @ expected @ lit '', received '' @ receivedType j))"

text \<open>\<open>z.string().min(1, msg)\<close>\<close>

definition zStringMin1 :: "jstring \<Rightarrow> path_elem list \<Rightarrow> json option \<Rightarrow> jstring parsed" where
  "zStringMin1 msg path v =
     (case v of
        Some (JStr s) \<Rightarrow> if length s < 1 then Issues [(path, msg)] else Valid s
      | _ \<Rightarrow> Issues [invalidType path (lit ''string'') v])"

text \<open>\<open>z.string().optional()\<close>\<close>

definition zStringOptional :: "path_elem list \<Rightarrow> json option \<Rightarrow> jstring option parsed" where
  "zStringOptional path v =
     (case v of
        None \<Rightarrow> Valid None
      | Some (JStr s) \<Rightarrow> Valid (Some s)
      | _ \<Rightarrow> Issues [invalidType path (lit ''string'') v])"

text \<open>
  \<open>Number.parseInt(val, 10)\<close>: leading white space, an optional sign, then the
  longest run of digits; \<open>None\<close> is \<open>NaN\<close>.
\<close>

definition digitsValue :: "jstring \<Rightarrow> nat" where
  "digitsValue ds = foldl (\<lambda>a c. 10 * a + (c - 48)) 0 ds"

definition parseInt10 :: "jstring \<Rightarrow> int option" where
  "parseInt10 s =
     (let t = dropWhile isWhitespace s;
          negative = (t \<noteq> [] \<and> hd t = 45);
          u = (if t \<noteq> [] \<and> (hd t = 45 \<or> hd t = 43) then tl t else t);
          ds = takeWhile isDigit u
      in if ds = [] then None
         else Some (if negative then - int (digitsValue ds) else int (digitsValue ds)))"

text \<open>
  The exception the transform of \<open>quantity\<close> throws: a \<open>ZodError\<close> with one
  issue; its \<open>message\<close> is the JSON rendering of the issues.
\<close>

definition quantityZodError :: js_exn where
  "quantityZodError =
     JsError (lit ''['' @ nl @ lit ''  {'' @ nl
              @ lit ''    '' @ [34] @ lit ''code'' @ [34] @ lit '': '' @ [34] @ lit ''custom'' @ [34] @ lit '','' @ nl
              @ lit ''    '' @ [34] @ lit ''message'' @ [34] @ lit '': '' @ [34]
                @ lit ''Quantity must be a positive integer'' @ [34] @ lit '','' @ nl
              @ lit ''    '' @ [34] @ lit ''path'' @ [34] @ lit '': ['' @ nl
              @ lit ''      '' @ [34] @ lit ''quantity'' @ [34] @ nl
              @ lit ''    ]'' @ nl @ lit ''  }'' @ nl @ lit '']'')"

text \<open>
  \<open>z.number().int().positive(msg).or(z.string().transform(...))\<close>. A number is
  checked by the first option, whose issues are reported. A string passes
  \<open>z.string()\<close> and reaches the transform, which returns the parsed number or
  throws. Any other value fails both options.
\<close>

definition zQuantity :: "path_elem list \<Rightarrow> json option \<Rightarrow> int parsed" where
  "zQuantity path v =
     (case v of
        Some (JNum q) \<Rightarrow>
          let found =
                (if of_int \<lfloor>q\<rfloor> \<noteq> q then [(path, lit ''Expected integer, received float'')] else [])
                @ (if q \<le> 0 then [(path, lit ''Quantity must be a positive integer'')] else [])
          in if found = [] then Valid \<lfloor>q\<rfloor> else Issues found
      | Some (JStr val) \<Rightarrow>
          (case parseInt10 val of
             None \<Rightarrow> Throws quantityZodError
           | Some num \<Rightarrow> if num \<le> 0 then Throws quantityZodError else Valid num)
      | _ \<Rightarrow> Issues [(path, lit ''Invalid input'')])"

text \<open>The object schema of one item: \<open>name\<close>, then \<open>quantity\<close>.\<close>

definition zItem :: "path_elem list \<Rightarrow> json option \<Rightarrow> OrderItem parsed" where
  "zItem path v =
     (case v of
        Some (JObj kvs) \<Rightarrow>
          mapParsed (\<lambda>(n, q). \<lparr>name = n, quantity = q\<rparr>)
            (both (zStringMin1 (lit ''Item name is required'') (path @ [Key (lit ''name'')])
                     (map_of kvs (lit ''name'')))
                  (zQuantity (path @ [Key (lit ''quantity'')]) (map_of kvs (lit ''quantity''))))
      | _ \<Rightarrow> Issues [invalidType path (lit ''object'') v])"

fun zElements :: "path_elem list \<Rightarrow> nat \<Rightarrow> json list \<Rightarrow> OrderItem list parsed" where
  "zElements path i [] = Valid []"
| "zElements path i (x # xs) =
     mapParsed (\<lambda>(y, ys). y # ys) (both (zItem (path @ [Index i]) (Some x)) (zElements path (Suc i) xs))"

text \<open>\<open>z.array(item).min(1, msg)\<close>: the length is checked, then every element is parsed.\<close>

definition zItems :: "path_elem list \<Rightarrow> json option \<Rightarrow> OrderItem list parsed" where
  "zItems path v =
     (case v of
        Some (JArr xs) \<Rightarrow>
          mapParsed snd
            (both (if length xs < 1 then Issues [(path, lit ''At least one item is required'')]
                   else Valid ())
                  (zElements path 0 xs))
      | _ \<Rightarrow> Issues [invalidType path (lit ''array'') v])"

text \<open>\<open>orderSchema.safeParse(body)\<close>; the keys are parsed in the order of the schema.\<close>

definition orderSchema :: "json option \<Rightarrow> PickupOrderRequest parsed" where
  "orderSchema v =
     (case v of
        Some (JObj kvs) \<Rightarrow>
          mapParsed
            (\<lambda>(cn, pa, dt, its, notes, phone).
               \<lparr>customerName = cn, pickupAddress = pa, pickupDateTime = dt, items = its,
                customerNotes = notes, customerPhone = phone\<rparr>)
            (both (zStringMin1 (lit ''Customer name is required'') [Key (lit ''customerName'')]
                     (map_of kvs (lit ''customerName'')))
            (both (zStringMin1 (lit ''Pickup address is required'') [Key (lit ''pickupAddress'')]
                     (map_of kvs (lit ''pickupAddress'')))
            (both (zStringOptional [Key (lit ''pickupDateTime'')] (map_of kvs (lit ''pickupDateTime'')))
            (both (zItems [Key (lit ''items'')] (map_of kvs (lit ''items'')))
            (both (zStringOptional [Key (lit ''customerNotes'')] (map_of kvs (lit ''customerNotes'')))
                  (zStringOptional [Key (lit ''customerPhone'')] (map_of kvs (lit ''customerPhone''))))))))
      | _ \<Rightarrow> Issues [invalidType [] (lit ''object'') v])"

text \<open>\<open>e.path.join(".")\<close>\<close>

fun renderElem :: "path_elem \<Rightarrow> jstring" where
  "renderElem (Key k) = k"
| "renderElem (Index i) = showNat i"

definition renderPath :: "path_elem list \<Rightarrow> jstring" where
  "renderPath path = join (lit ''.'') (map renderElem path)"

section \<open>Order Intake Handler\<close>

record OrderSubmissionResponse =
  r_success :: bool
  r_orderId :: "jstring option"
  r_messageId :: "jstring option"
  r_message :: "jstring option"
  r_error :: "jstring option"

record http_reply =
  status :: nat
  payload :: OrderSubmissionResponse

record request =
  reqMethod :: jstring
  reqBody :: "json option"

text \<open>What the handler writes with \<open>console.error\<close> and \<open>console.warn\<close>.\<close>

datatype log_entry =
    ConsoleError jstring "jstring option list"
  | ConsoleWarn jstring "jstring option list"

definition errorReply :: "nat \<Rightarrow> jstring \<Rightarrow> http_reply" where
  "errorReply code e =
     \<lparr>status = code,
      payload = \<lparr>r_success = False, r_orderId = None, r_messageId = None, r_message = None,
                 r_error = Some e\<rparr>\<rparr>"

definition exnMessage :: "js_exn \<Rightarrow> jstring option" where
  "exnMessage e = (case e of JsError m \<Rightarrow> Some m | MessagelessError \<Rightarrow> None
                             | NonError \<Rightarrow> None)"

subsection \<open>The hardened handler\<close>

text \<open>The \<open>catch\<close> of the whole handler.\<close>

definition unexpected :: "request \<Rightarrow> js_exn \<Rightarrow> http_reply \<times> log_entry list" where
  "unexpected req e =
     (errorReply 500 (lit ''An unexpected server error occurred. Please try again or contact support.''),
      [ConsoleError (lit ''Order handler error:'') [exnMessage e, Some (reqMethod req)]])"

text \<open>Generating the order id, the two sends and the response.\<close>

definition notifyAndRespond ::
  "platform \<Rightarrow> (PickupOrderRequest \<Rightarrow> js_exn + WhatsAppResponse)
    \<Rightarrow> (jstring \<Rightarrow> jstring \<Rightarrow> jstring \<Rightarrow> js_exn + WhatsAppResponse)
    \<Rightarrow> request \<Rightarrow> PickupOrderRequest \<Rightarrow> http_reply \<times> log_entry list" where
  "notifyAndRespond p sendDry sendCust req order =
     (let orderId = newOrderId p in
      case sendDry order of
        Inl e \<Rightarrow> unexpected req e
      | Inr dryCleanerResponse \<Rightarrow>
          if \<not> success dryCleanerResponse then
            (\<lparr>status = 500,
              payload = \<lparr>r_success = False, r_orderId = Some orderId, r_messageId = None,
                         r_message = None,
                         r_error = Some (lit ''Failed to send order notification. Please contact support with order ID: '' @ orderId)\<rparr>\<rparr>,
             [ConsoleError (lit ''Failed to send order to dry cleaner:'')
                [Some orderId, error dryCleanerResponse, Some (customerName order)]])
          else
            let logs =
                  (if falsy (customerPhone order) then []
                   else case sendCust (the (customerPhone order)) (customerName order)
                               (case pickupDateTime order of None \<Rightarrow> [] | Some d \<Rightarrow> d) of
                          Inr customerResponse \<Rightarrow>
                            if success customerResponse then []
                            else [ConsoleWarn (lit ''Failed to send customer confirmation:'')
                                    [Some orderId, customerPhone order, error customerResponse]]
                        | Inl customerError \<Rightarrow>
                            [ConsoleWarn (lit ''Exception while sending customer confirmation:'')
                               [Some orderId, customerPhone order,
                                (case customerError of JsError m \<Rightarrow> Some m
                                                     | MessagelessError \<Rightarrow> None
                                                     | NonError \<Rightarrow> Some (lit ''Unknown error''))]])
            in (\<lparr>status = 200,
                 payload = \<lparr>r_success = True, r_orderId = Some orderId,
                            r_messageId = messageId dryCleanerResponse,
                            r_message = Some (lit ''Order submitted successfully''),
                            r_error = None\<rparr>\<rparr>,
                logs))"

text \<open>
  The checks of the items after the schema, stopping at the first bad item. A quantity is
  an integer here, so \<open>Number.isInteger(item.quantity)\<close> holds and only the sign
  is left to test.
\<close>

fun checkItems :: "nat \<Rightarrow> OrderItem list \<Rightarrow> jstring option" where
  "checkItems i [] = None"
| "checkItems i (item # rest) =
     (if name item = [] \<or> trim (name item) = [] then
        Some (lit ''Item at index '' @ showNat i @ lit '' has an empty or invalid name.'')
      else if quantity item \<le> 0 then
        Some (lit ''Item '' @ [34] @ name item @ [34]
              @ lit '' has an invalid quantity. Must be a positive integer.'')
      else checkItems (Suc i) rest)"

text \<open>Trimming after validation, and the checks that follow it.\<close>

definition sanitize :: "PickupOrderRequest \<Rightarrow> PickupOrderRequest" where
  "sanitize order =
     order\<lparr>customerName := trim (customerName order),
           pickupAddress := trim (pickupAddress order),
           customerNotes := (if falsy (customerNotes order) then None
                             else Some (trim (the (customerNotes order))))\<rparr>"

definition checkSanitized :: "PickupOrderRequest \<Rightarrow> jstring option" where
  "checkSanitized order =
     (if customerName order = [] then
        Some (lit ''Customer name is required and cannot be empty.'')
      else if pickupAddress order = [] then
        Some (lit ''Pickup address is required and cannot be empty.'')
      else if items order = [] then
        Some (lit ''At least one item is required in the order.'')
      else checkItems 0 (items order))"

definition bodyFalsy :: "json option \<Rightarrow> bool" where
  "bodyFalsy b \<longleftrightarrow> b = None \<or> b = Some JNull \<or> b = Some (JBool False) \<or> b = Some (JNum 0)
                   \<or> b = Some (JStr [])"

text \<open>\<open>JSON.parse(body || '{}')\<close> when the body is falsy or a string.\<close>

definition parseBody :: "platform \<Rightarrow> json option \<Rightarrow> json option" where
  "parseBody p b =
     (if bodyFalsy b then jsonParse p (lit ''{}'')
      else case b of Some (JStr s) \<Rightarrow> jsonParse p s | _ \<Rightarrow> b)"

fun isPlainObject :: "json \<Rightarrow> bool" where
  "isPlainObject (JObj kvs) = True"
| "isPlainObject _ = False"

definition renderIssue :: "issue \<Rightarrow> jstring" where
  "renderIssue e =
     (if fst e \<noteq> [] then renderPath (fst e) else lit ''root'') @ lit '': '' @ snd e"

definition handler ::
  "platform \<Rightarrow> (PickupOrderRequest \<Rightarrow> js_exn + WhatsAppResponse)
    \<Rightarrow> (jstring \<Rightarrow> jstring \<Rightarrow> jstring \<Rightarrow> js_exn + WhatsAppResponse)
    \<Rightarrow> request \<Rightarrow> http_reply \<times> log_entry list" where
  "handler p sendDry sendCust req =
     (if reqMethod req \<noteq> lit ''POST'' then
        (errorReply 405 (lit ''Method not allowed. Expected POST, got '' @ reqMethod req @ lit ''.''), [])
      else case parseBody p (reqBody req) of
        None \<Rightarrow> (errorReply 400 (lit ''Invalid JSON format in request body.''), [])
      | Some b \<Rightarrow>
          if \<not> isPlainObject b then
            (errorReply 400 (lit ''Request body must be a valid JSON object.''), [])
          else case orderSchema (Some b) of
            Throws e \<Rightarrow> unexpected req e
          | Issues errors \<Rightarrow>
              (errorReply 400 (lit ''Validation failed: ''
                               @ join (lit '', '') (map renderIssue errors)), [])
          | Valid validated \<Rightarrow>
              let order = sanitize validated in
              (case checkSanitized order of
                 Some e \<Rightarrow> (errorReply 400 e, [])
               | None \<Rightarrow> notifyAndRespond p sendDry sendCust req order))"

subsection \<open>The handler of the Express route\<close>

text \<open>
  \<open>handlePickupOrder\<close> receives the body as the JSON middleware left it. It has one
  \<open>try\<close> around everything, and no log.
\<close>

definition internalError :: "js_exn \<Rightarrow> http_reply" where
  "internalError e =
     errorReply 500 (lit ''Internal server error: ''
                     @ (case e of JsError m \<Rightarrow> m
                                | MessagelessError \<Rightarrow> lit ''undefined''
                                | NonError \<Rightarrow> lit ''Unknown error occurred''))"

definition handlePickupOrder ::
  "platform \<Rightarrow> (PickupOrderRequest \<Rightarrow> js_exn + WhatsAppResponse)
    \<Rightarrow> (jstring \<Rightarrow> jstring \<Rightarrow> jstring \<Rightarrow> js_exn + WhatsAppResponse)
    \<Rightarrow> json option \<Rightarrow> http_reply" where
  "handlePickupOrder p sendDry sendCust received =
     (case orderSchema received of
        Throws e \<Rightarrow> internalError e
      | Issues errors \<Rightarrow>
          errorReply 400
            (join (lit '', '') (map (\<lambda>e. renderPath (fst e) @ lit '': '' @ snd e) errors))
      | Valid order \<Rightarrow>
          let orderId = newOrderId p in
          (case sendDry order of
             Inl e \<Rightarrow> internalError e
           | Inr dryCleanerResponse \<Rightarrow>
               if \<not> success dryCleanerResponse then
                 \<lparr>status = 500,
                  payload = \<lparr>r_success = False, r_orderId = Some orderId, r_messageId = None,
                             r_message = None,
                             r_error = Some (lit ''Failed to send order to dry cleaner: ''
                                             @ (case error dryCleanerResponse of
                                                  None \<Rightarrow> lit ''undefined'' | Some e \<Rightarrow> e))\<rparr>\<rparr>
               else
                 (case (if falsy (customerPhone order) then None
                        else case sendCust (the (customerPhone order)) (customerName order)
                                    (case pickupDateTime order of None \<Rightarrow> [] | Some d \<Rightarrow> d) of
                               Inl e \<Rightarrow> Some e
                             | Inr customerResponse \<Rightarrow> None) of
                    Some e \<Rightarrow> internalError e
                  | None \<Rightarrow>
                      \<lparr>status = 200,
                       payload = \<lparr>r_success = True, r_orderId = Some orderId,
                                  r_messageId = messageId dryCleanerResponse,
                                  r_message = Some (lit ''Order submitted successfully''),
                                  r_error = None\<rparr>\<rparr>)))"

text \<open>
  The handlers as deployed: the sends are the two functions of the messaging module,
  each with the SDK answering it.
\<close>

definition handlerDeployed ::
  "environment \<Rightarrow> platform \<Rightarrow> twilio_sdk \<Rightarrow> twilio_sdk \<Rightarrow> request
    \<Rightarrow> http_reply \<times> log_entry list" where
  "handlerDeployed env p sdk1 sdk2 req =
     handler p (\<lambda>order. fst (sendPickupOrderToDryCleaner env p sdk1 order))
       (\<lambda>phone cname dt. fst (sendCustomerConfirmation env p sdk2 phone cname dt)) req"

definition handlePickupOrderDeployed ::
  "environment \<Rightarrow> platform \<Rightarrow> twilio_sdk \<Rightarrow> twilio_sdk \<Rightarrow> json option \<Rightarrow> http_reply" where
  "handlePickupOrderDeployed env p sdk1 sdk2 received =
     handlePickupOrder p (\<lambda>order. fst (sendPickupOrderToDryCleaner env p sdk1 order))
       (\<lambda>phone cname dt. fst (sendCustomerConfirmation env p sdk2 phone cname dt)) received"

section \<open>Sample inputs\<close>

text \<open>Concrete inputs on which the properties below are exercised.\<close>

definition samplePlatform :: platform where
  "samplePlatform =
     \<lparr>dateShort = (\<lambda>s. if s = lit ''2024-05-01T10:00:00Z''
                         then Rendered (lit ''Wed, May 1, 2024, 10:00 AM'') else InvalidDate),
      dateLong = (\<lambda>s. if s = lit ''2024-05-01T10:00:00Z''
                        then Rendered (lit ''Wednesday, May 1, 2024 at 10:00 AM'') else InvalidDate),
      now = lit ''11/2/2026, 9:07:00 AM'',
      newOrderId = lit ''ORD-MHI3K2A1-X7Q9ZB'',
      jsonParse = (\<lambda>s. if s = lit ''{}'' then Some (JObj []) else None)\<rparr>"

definition sampleOrder :: PickupOrderRequest where
  "sampleOrder =
     \<lparr>customerName = lit ''Amahoro'', pickupAddress = lit ''KG 11 Ave'',
      pickupDateTime = Some (lit ''not-a-date''),
      items = [\<lparr>name = lit ''Shirt'', quantity = 2\<rparr>, \<lparr>name = lit ''Suit'', quantity = 1\<rparr>],
      customerNotes = None, customerPhone = Some (lit ''0792875310'')\<rparr>"

definition sampleEnv :: environment where
  "sampleEnv =
     \<lparr>DRY_CLEANER_WHATSAPP_NUMBER = Some (lit ''0784123456''),
      TWILIO_ACCOUNT_SID = Some (lit ''AC0123''),
      TWILIO_AUTH_TOKEN = Some (lit ''secret''),
      TWILIO_WHATSAPP_NUMBER = Some (lit ''whatsapp:+14155238886''),
      WHATSAPP_ACCESS_TOKEN = Some (lit ''token''),
      WHATSAPP_PHONE_NUMBER_ID = Some (lit ''1055''),
      WHATSAPP_API_VERSION = None,
      envDebug = lit ''DRY_CLEANER_WHATSAPP_NUMBER=***''\<rparr>"

definition sampleStringify :: "api_error option \<Rightarrow> jstring" where
  "sampleStringify e = (case e of None \<Rightarrow> lit ''undefined'' | Some x \<Rightarrow> lit ''{...}'')"

text \<open>A provider that accepts the request but returns no message identifier.\<close>

definition okWithoutIdFetch :: "nat \<Rightarrow> wa_request \<Rightarrow> fetch_outcome" where
  "okWithoutIdFetch n rq =
     FetchResolved \<lparr>resp_ok = True, resp_status = 200, resp_statusText = lit ''OK'',
                    resp_json = JsonValue \<lparr>data_error = None, data_message_id = None\<rparr>\<rparr>"

definition sampleConfig :: WhatsAppConfig where
  "sampleConfig =
     \<lparr>accessToken = lit ''token'', phoneNumberId = lit ''1055'', apiVersion = lit ''v18.0'',
      baseUrl = lit ''https://graph.facebook.com/v18.0/1055/messages''\<rparr>"

text \<open>The two refusals of the provider used below.\<close>

definition notAllowedData :: api_data where
  "notAllowedData =
     \<lparr>data_error = Some \<lparr>err_message = Some (lit ''Recipient phone number not in allowed list''),
                          err_code = Some 131030\<rparr>,
      data_message_id = None\<rparr>"

definition notAllowedResponse :: http_response where
  "notAllowedResponse =
     \<lparr>resp_ok = False, resp_status = 400, resp_statusText = lit ''Bad Request'',
      resp_json = JsonValue notAllowedData\<rparr>"

definition invalidParameterResponse :: http_response where
  "invalidParameterResponse =
     \<lparr>resp_ok = False, resp_status = 400, resp_statusText = lit ''Bad Request'',
      resp_json = JsonValue
        \<lparr>data_error = Some \<lparr>err_message = Some (lit ''Invalid parameter''), err_code = Some 100\<rparr>,
         data_message_id = None\<rparr>\<rparr>"

text \<open>A provider for which the recipient is not in the allowed list, in either form.\<close>

definition notAllowedFetch :: "nat \<Rightarrow> wa_request \<Rightarrow> fetch_outcome" where
  "notAllowedFetch n rq = FetchResolved notAllowedResponse"

text \<open>
  A provider that refuses the plain destination as not allowed, and the destination with
  \<open>+\<close> as an invalid parameter.
\<close>

definition retryRefusedFetch :: "nat \<Rightarrow> wa_request \<Rightarrow> fetch_outcome" where
  "retryRefusedFetch n rq =
     (if n = 0 then FetchResolved notAllowedResponse
      else FetchResolved invalidParameterResponse)"

text \<open>An SDK that delivers every message, and one whose provider rejects every message.\<close>

definition acceptingSdk :: twilio_sdk where
  "acceptingSdk =
     \<lparr>construct = (\<lambda>accountSid authToken. None),
      create = (\<lambda>rq. Resolved (Some (lit ''SM0001'')))\<rparr>"

definition rejectingSdk :: twilio_sdk where
  "rejectingSdk =
     \<lparr>construct = (\<lambda>accountSid authToken. None),
      create = (\<lambda>rq. Rejected (JsError (lit ''Authenticate'')))\<rparr>"

text \<open>
  An SDK whose provider delivers to the dry cleaner's number and rejects every other
  destination with an error that carries no message.
\<close>

definition messagelessSdk :: twilio_sdk where
  "messagelessSdk =
     \<lparr>construct = (\<lambda>accountSid authToken. None),
      create = (\<lambda>rq. if tw_to rq = lit ''whatsapp:+250784123456''
                        then Resolved (Some (lit ''SM0001''))
                        else Rejected MessagelessError)\<rparr>"

definition sampleBody :: json where
  "sampleBody =
     JObj [(lit ''customerName'', JStr (lit ''Amahoro'')),
           (lit ''pickupAddress'', JStr (lit ''KG 11 Ave'')),
           (lit ''pickupDateTime'', JStr (lit ''not-a-date'')),
           (lit ''items'',
              JArr [JObj [(lit ''name'', JStr (lit ''Shirt'')), (lit ''quantity'', JNum 2)],
                    JObj [(lit ''name'', JStr (lit ''Suit'')), (lit ''quantity'', JStr (lit ''1''))]]),
           (lit ''customerPhone'', JStr (lit ''0792875310''))]"

definition badQuantityBody :: json where
  "badQuantityBody =
     JObj [(lit ''customerName'', JStr (lit ''Amahoro'')),
           (lit ''pickupAddress'', JStr (lit ''KG 11 Ave'')),
           (lit ''items'',
              JArr [JObj [(lit ''name'', JStr (lit ''Shirt'')), (lit ''quantity'', JStr (lit ''abc''))]])]"

definition emptyItemsBody :: json where
  "emptyItemsBody =
     JObj [(lit ''customerName'', JStr (lit ''Amahoro'')),
           (lit ''pickupAddress'', JStr (lit ''KG 11 Ave'')),
           (lit ''items'', JArr [])]"

definition sampleRequest :: request where
  "sampleRequest = \<lparr>reqMethod = lit ''POST'', reqBody = Some sampleBody\<rparr>"

definition zeroQuantityBody :: json where
  "zeroQuantityBody =
     JObj [(lit ''customerName'', JStr (lit ''Amahoro'')),
           (lit ''pickupAddress'', JStr (lit ''KG 11 Ave'')),
           (lit ''items'',
              JArr [JObj [(lit ''name'', JStr (lit ''Shirt'')), (lit ''quantity'', JNum 0)]])]"

section \<open>Properties of strings\<close>

lemma startsWith_iff: "startsWith s pre \<longleftrightarrow> (\<exists>t. s = pre @ t)"
  by (induction s pre rule: startsWith.induct) auto

lemma includesStr_iff: "includesStr s sub \<longleftrightarrow> (\<exists>a b. s = a @ sub @ b)"
proof (induction s)
  case Nil
  then show ?case by auto
next
  case (Cons c cs)
  show ?case
  proof
    assume "includesStr (c # cs) sub"
    then consider "startsWith (c # cs) sub" | "includesStr cs sub" by auto
    then show "\<exists>a b. c # cs = a @ sub @ b"
    proof cases
      case 1
      then obtain t where "c # cs = sub @ t" by (auto simp: startsWith_iff)
      then have "c # cs = [] @ sub @ t" by simp
      then show ?thesis by blast
    next
      case 2
      then obtain a b where "cs = a @ sub @ b" using Cons.IH by blast
      then have "c # cs = (c # a) @ sub @ b" by simp
      then show ?thesis by blast
    qed
  next
    assume "\<exists>a b. c # cs = a @ sub @ b"
    then obtain a b where ab: "c # cs = a @ sub @ b" by blast
    show "includesStr (c # cs) sub"
    proof (cases a)
      case Nil
      then have "startsWith (c # cs) sub" using ab by (auto simp: startsWith_iff)
      then show ?thesis by simp
    next
      case (Cons x a')
      then have "cs = a' @ sub @ b" using ab by simp
      then have "includesStr cs sub" using Cons.IH by blast
      then show ?thesis by simp
    qed
  qed
qed

lemma includesStr_mid: "includesStr (a @ sub @ b) sub"
  unfolding includesStr_iff by blast

section \<open>Properties of the Phone Normalizer\<close>

lemma lit_250: "lit ''250'' = [50, 53, 48]"
  by (simp add: lit_def)

lemma lit_0: "lit ''0'' = [48]"
  by (simp add: lit_def)

lemma startsWith_single: "startsWith s [c] \<longleftrightarrow> (\<exists>t. s = c # t)"
  by (cases s) auto

lemma cleanedInput_Nil: "cleanedInput [] = []"
  by (simp add: cleanedInput_def trim_def)

lemma normalize_rejects:
  "\<not> digitsBetween 9 15 (cleanedInput p) \<Longrightarrow> normalizePhoneNumber (Some p) d = None"
  by (simp add: normalizePhoneNumber_def Let_def)

lemma normalize_trunk_prefix:
  assumes a: "digitsBetween 10 10 (cleanedInput p)"
    and b: "startsWith (cleanedInput p) (lit ''0'')"
  shows "normalizePhoneNumber (Some p) (lit ''250'')
          = Some (lit ''250'' @ drop 1 (cleanedInput p))"
proof -
  have ne: "p \<noteq> []"
    using a by (auto simp: digitsBetween_def cleanedInput_Nil)
  have l: "length (cleanedInput p) = 10"
    using a by (simp add: digitsBetween_def)
  have d: "list_all isDigit (cleanedInput p)"
    using a by (simp add: digitsBetween_def)
  have d250: "list_all isDigit (lit ''250'')"
    by (simp add: lit_250 isDigit_def)
  have d2: "list_all isDigit (drop 1 (cleanedInput p))"
    using d by (metis append_take_drop_id list_all_append)
  show ?thesis
    using ne l d d2 d250 b
    by (simp add: normalizePhoneNumber_def Let_def digitsBetween_def lit_250)
qed

lemma normalize_nine_digits:
  assumes a: "digitsBetween 9 9 (cleanedInput p)"
  shows "normalizePhoneNumber (Some p) (lit ''250'') = Some (lit ''250'' @ cleanedInput p)"
proof -
  have ne: "p \<noteq> []"
    using a by (auto simp: digitsBetween_def cleanedInput_Nil)
  have l: "length (cleanedInput p) = 9"
    using a by (simp add: digitsBetween_def)
  have d: "list_all isDigit (cleanedInput p)"
    using a by (simp add: digitsBetween_def)
  have d250: "list_all isDigit (lit ''250'')"
    by (simp add: lit_250 isDigit_def)
  show ?thesis
    using ne l d d250
    by (simp add: normalizePhoneNumber_def Let_def digitsBetween_def lit_250)
qed

lemma normalize_result_digits:
  "normalizePhoneNumber phone d = Some r \<Longrightarrow> digitsBetween 10 15 r"
  by (simp add: normalizePhoneNumber_def Let_def split: option.splits if_splits)

lemmas normalize_eval =
  normalizePhoneNumber_def cleanedInput_def lit_def trim_def isWhitespace_def
  digitsBetween_def isDigit_def

lemma normalize_example_trunk:
  "normalizePhoneNumber (Some (lit ''0792875310'')) (lit ''250'') = Some (lit ''250792875310'')"
  by (simp add: normalize_eval)

lemma normalize_example_nine:
  "normalizePhoneNumber (Some (lit ''792875310'')) (lit ''250'') = Some (lit ''250792875310'')"
  by (simp add: normalize_eval)

text \<open>
  Claim C2. With the default country code \<open>250\<close>, \<open>normalizePhoneNumber\<close> returns
  \<open>null\<close> when the input, once white space, hyphens, parentheses and one leading
  \<open>+\<close> are removed, is not all digits or has a length outside 9 to 15; a cleaned
  string of exactly 10 digits that starts with \<open>0\<close> has that zero replaced by
  \<open>250\<close>; a cleaned string of exactly 9 digits gets \<open>250\<close> in front; every
  result that is not \<open>null\<close> is all digits and 10 to 15 long; \<open>0792875310\<close> and
  \<open>792875310\<close> both give \<open>250792875310\<close>.
\<close>

theorem normalizePhoneNumber_default_250:
  "(\<not> (list_all isDigit (cleanedInput p) \<and> 9 \<le> length (cleanedInput p)
        \<and> length (cleanedInput p) \<le> 15)
      \<longrightarrow> normalizePhoneNumber (Some p) (lit ''250'') = None)
   \<and> (list_all isDigit (cleanedInput p) \<and> length (cleanedInput p) = 10
        \<and> startsWith (cleanedInput p) (lit ''0'')
      \<longrightarrow> normalizePhoneNumber (Some p) (lit ''250'')
            = Some (lit ''250'' @ drop 1 (cleanedInput p)))
   \<and> (list_all isDigit (cleanedInput p) \<and> length (cleanedInput p) = 9
      \<longrightarrow> normalizePhoneNumber (Some p) (lit ''250'') = Some (lit ''250'' @ cleanedInput p))
   \<and> (\<forall>r. normalizePhoneNumber (Some p) (lit ''250'') = Some r
      \<longrightarrow> list_all isDigit r \<and> 10 \<le> length r \<and> length r \<le> 15)
   \<and> normalizePhoneNumber None (lit ''250'') = None
   \<and> normalizePhoneNumber (Some (lit ''0792875310'')) (lit ''250'') = Some (lit ''250792875310'')
   \<and> normalizePhoneNumber (Some (lit ''792875310'')) (lit ''250'') = Some (lit ''250792875310'')"
proof (intro conjI impI allI)
  assume "\<not> (list_all isDigit (cleanedInput p) \<and> 9 \<le> length (cleanedInput p)
            \<and> length (cleanedInput p) \<le> 15)"
  then have "\<not> digitsBetween 9 15 (cleanedInput p)"
    by (auto simp: digitsBetween_def)
  then show "normalizePhoneNumber (Some p) (lit ''250'') = None"
    by (rule normalize_rejects)
next
  assume "list_all isDigit (cleanedInput p) \<and> length (cleanedInput p) = 10
          \<and> startsWith (cleanedInput p) (lit ''0'')"
  then have "digitsBetween 10 10 (cleanedInput p)" "startsWith (cleanedInput p) (lit ''0'')"
    by (auto simp: digitsBetween_def)
  then show "normalizePhoneNumber (Some p) (lit ''250'')
              = Some (lit ''250'' @ drop 1 (cleanedInput p))"
    by (rule normalize_trunk_prefix)
next
  assume "list_all isDigit (cleanedInput p) \<and> length (cleanedInput p) = 9"
  then have "digitsBetween 9 9 (cleanedInput p)"
    by (auto simp: digitsBetween_def)
  then show "normalizePhoneNumber (Some p) (lit ''250'') = Some (lit ''250'' @ cleanedInput p)"
    by (rule normalize_nine_digits)
next
  fix r
  assume "normalizePhoneNumber (Some p) (lit ''250'') = Some r"
  then have d: "digitsBetween 10 15 r"
    by (rule normalize_result_digits)
  show "list_all isDigit r" using d by (simp add: digitsBetween_def)
  show "10 \<le> length r" using d by (simp add: digitsBetween_def)
  show "length r \<le> 15" using d by (simp add: digitsBetween_def)
next
  show "normalizePhoneNumber None (lit ''250'') = None"
    by (simp add: normalizePhoneNumber_def)
next
  show "normalizePhoneNumber (Some (lit ''0792875310'')) (lit ''250'')
          = Some (lit ''250792875310'')"
    by (rule normalize_example_trunk)
next
  show "normalizePhoneNumber (Some (lit ''792875310'')) (lit ''250'')
          = Some (lit ''250792875310'')"
    by (rule normalize_example_nine)
qed

theorem normalizePhoneNumber_default_250_witness:
  "normalizePhoneNumber (Some (lit ''abc123'')) (lit ''250'') = None
   \<and> normalizePhoneNumber (Some (lit ''+250 79''))  (lit ''250'') = None
   \<and> cleanedInput (lit ''(079) 287-5310'') = lit ''0792875310''
   \<and> normalizePhoneNumber (Some (lit ''(079) 287-5310'')) (lit ''250'') = Some (lit ''250792875310'')
   \<and> cleanedInput (lit ''+792 875 310'') = lit ''792875310''
   \<and> normalizePhoneNumber (Some (lit ''+792 875 310'')) (lit ''250'') = Some (lit ''250792875310'')
   \<and> list_all isDigit (lit ''250792875310'') \<and> length (lit ''250792875310'') = 12"
  using normalizePhoneNumber_default_250 [of "lit ''abc123''"]
    normalizePhoneNumber_default_250 [of "lit ''+250 79''"]
    normalizePhoneNumber_default_250 [of "lit ''(079) 287-5310''"]
    normalizePhoneNumber_default_250 [of "lit ''+792 875 310''"]
  by (simp add: cleanedInput_def lit_def trim_def isWhitespace_def isDigit_def)

section \<open>Properties of the Message Formatter\<close>

lemma formatPickupOrderMessage_parts:
  "formatPickupOrderMessage p order =
     ([55358, 56826] @ lit '' *NEW PICKUP ORDER*'' @ nl @ nl
       @ [55357, 56523] @ lit '' *Customer:* '' @ customerName order @ nl
       @ [55357, 56525] @ lit '' *Address:* '' @ pickupAddress order @ nl
       @ [9200] @ lit '' *Preferred Pickup:* '')
     @ pickupTimeFormatted p (pickupDateTime order)
     @ (nl @ nl @ [55357, 56550] @ lit '' *Items:*'' @ nl)
     @ join nl (map itemLine (items order))
     @ (nl @ (if \<not> falsy (customerNotes order) \<and> trim (the (customerNotes order)) \<noteq> []
              then nl @ [55357, 56541] @ lit '' *Notes:*'' @ nl
                   @ trim (the (customerNotes order)) @ nl
              else []))
     @ (nl @ lit ''_Order received at '' @ now p @ lit ''_'')"
  by (simp add: formatPickupOrderMessage_def Let_def)


lemma join_member: "x \<in> set xs \<Longrightarrow> \<exists>a b. join sep xs = a @ x @ b"
proof (induction sep xs rule: join.induct)
  case (1 sep)
  then show ?case by simp
next
  case (2 sep y)
  then have "join sep [y] = [] @ x @ []" by simp
  then show ?case by blast
next
  case (3 sep y z zs)
  show ?case
  proof (cases "x = y")
    case True
    then have "join sep (y # z # zs) = [] @ x @ (sep @ join sep (z # zs))" by simp
    then show ?thesis by blast
  next
    case False
    then have "x \<in> set (z # zs)" using "3.prems" by simp
    then obtain a b where "join sep (z # zs) = a @ x @ b" using "3.IH" by blast
    then have "join sep (y # z # zs) = (y @ sep @ a) @ x @ b" by simp
    then show ?thesis by blast
  qed
qed

lemma format_items_block:
  "\<exists>pre post. \<forall>its. formatPickupOrderMessage p (order\<lparr>items := its\<rparr>)
      = pre @ join nl (map itemLine its) @ post"
proof -
  let ?pre = "([55358, 56826] @ lit '' *NEW PICKUP ORDER*'' @ nl @ nl
       @ [55357, 56523] @ lit '' *Customer:* '' @ customerName order @ nl
       @ [55357, 56525] @ lit '' *Address:* '' @ pickupAddress order @ nl
       @ [9200] @ lit '' *Preferred Pickup:* '')
     @ pickupTimeFormatted p (pickupDateTime order)
     @ (nl @ nl @ [55357, 56550] @ lit '' *Items:*'' @ nl)"
  let ?post = "(nl @ (if \<not> falsy (customerNotes order) \<and> trim (the (customerNotes order)) \<noteq> []
              then nl @ [55357, 56541] @ lit '' *Notes:*'' @ nl
                   @ trim (the (customerNotes order)) @ nl
              else []))
     @ (nl @ lit ''_Order received at '' @ now p @ lit ''_'')"
  have "\<forall>its. formatPickupOrderMessage p (order\<lparr>items := its\<rparr>)
      = ?pre @ join nl (map itemLine its) @ ?post"
    by (simp add: formatPickupOrderMessage_parts)
  then show ?thesis by blast
qed

lemma format_includes_time:
  "includesStr (formatPickupOrderMessage p order) (pickupTimeFormatted p (pickupDateTime order))"
  by (subst formatPickupOrderMessage_parts) (rule includesStr_mid)

lemma format_includes_item:
  assumes "item \<in> set (items order)"
  shows "includesStr (formatPickupOrderMessage p order) (itemLine item)"
proof -
  have "itemLine item \<in> set (map itemLine (items order))"
    using assms by simp
  then obtain a b where ab: "join nl (map itemLine (items order)) = a @ itemLine item @ b"
    using join_member by blast
  obtain pre post where "\<forall>its. formatPickupOrderMessage p (order\<lparr>items := its\<rparr>)
      = pre @ join nl (map itemLine its) @ post"
    using format_items_block [of p order] by blast
  then have "formatPickupOrderMessage p (order\<lparr>items := items order\<rparr>)
      = pre @ join nl (map itemLine (items order)) @ post"
    by (rule spec)
  then have pp: "formatPickupOrderMessage p order
      = pre @ join nl (map itemLine (items order)) @ post"
    by simp
  have "formatPickupOrderMessage p order = (pre @ a) @ itemLine item @ (b @ post)"
    by (simp add: pp ab)
  then show ?thesis
    unfolding includesStr_iff by blast
qed

text \<open>
  Claim C8. The output of \<open>formatPickupOrderMessage\<close> holds the items as one block
  that is exactly one line per item, in the order of the input list, between a prefix and
  a suffix that do not depend on the items; the line of every item, with its quantity and
  its name, is part of the output. When \<open>pickupDateTime\<close> is a string that does
  not parse as a date (the date is invalid, or formatting it throws), the output contains
  that string as it is, and the function returns; when \<open>pickupDateTime\<close> is absent
  the output contains \<open>Not specified\<close>.
\<close>

theorem formatPickupOrderMessage_items_and_time:
  "(\<exists>pre post. \<forall>its. formatPickupOrderMessage p (order\<lparr>items := its\<rparr>)
        = pre @ join nl (map itemLine its) @ post)
   \<and> (\<forall>item \<in> set (items order).
         includesStr (formatPickupOrderMessage p order)
           (showInt (quantity item) @ lit ''x '' @ name item))
   \<and> (\<forall>s. pickupDateTime order = Some s
            \<and> (dateShort p s = InvalidDate \<or> dateShort p s = DateThrows)
         \<longrightarrow> includesStr (formatPickupOrderMessage p order) s)
   \<and> (pickupDateTime order = None
         \<longrightarrow> includesStr (formatPickupOrderMessage p order) (lit ''Not specified''))"
proof (intro conjI ballI allI impI)
  show "\<exists>pre post. \<forall>its. formatPickupOrderMessage p (order\<lparr>items := its\<rparr>)
        = pre @ join nl (map itemLine its) @ post"
    by (rule format_items_block)
next
  fix item
  assume "item \<in> set (items order)"
  then have "includesStr (formatPickupOrderMessage p order) (itemLine item)"
    by (rule format_includes_item)
  then obtain a b where "formatPickupOrderMessage p order = a @ itemLine item @ b"
    unfolding includesStr_iff by blast
  then have "formatPickupOrderMessage p order
      = (a @ lit ''  '' @ [8226] @ lit '' '')
        @ (showInt (quantity item) @ lit ''x '' @ name item) @ b"
    by (simp add: itemLine_def)
  then show "includesStr (formatPickupOrderMessage p order)
           (showInt (quantity item) @ lit ''x '' @ name item)"
    unfolding includesStr_iff by blast
next
  fix s
  assume a: "pickupDateTime order = Some s
            \<and> (dateShort p s = InvalidDate \<or> dateShort p s = DateThrows)"
  show "includesStr (formatPickupOrderMessage p order) s"
  proof (cases "s = []")
    case True
    then show ?thesis by (cases "formatPickupOrderMessage p order") simp_all
  next
    case False
    then have "pickupTimeFormatted p (pickupDateTime order) = s"
      using a by (auto simp: pickupTimeFormatted_def falsy_def)
    then show ?thesis
      using format_includes_time [of p order] by simp
  qed
next
  assume "pickupDateTime order = None"
  then have "pickupTimeFormatted p (pickupDateTime order) = lit ''Not specified''"
    by (simp add: pickupTimeFormatted_def falsy_def)
  then show "includesStr (formatPickupOrderMessage p order) (lit ''Not specified'')"
    using format_includes_time [of p order] by simp
qed

theorem formatPickupOrderMessage_items_and_time_witness:
  "includesStr (formatPickupOrderMessage samplePlatform sampleOrder) (lit ''2x Shirt'')
   \<and> includesStr (formatPickupOrderMessage samplePlatform sampleOrder) (lit ''1x Suit'')
   \<and> includesStr (formatPickupOrderMessage samplePlatform sampleOrder) (lit ''not-a-date'')
   \<and> includesStr (formatPickupOrderMessage samplePlatform (sampleOrder\<lparr>pickupDateTime := None\<rparr>))
        (lit ''Not specified'')"
  using formatPickupOrderMessage_items_and_time [of samplePlatform sampleOrder]
    formatPickupOrderMessage_items_and_time [of samplePlatform "sampleOrder\<lparr>pickupDateTime := None\<rparr>"]
  by (simp add: sampleOrder_def samplePlatform_def showInt_def showNat.simps lit_def)

text \<open>
  Claim C9. Two calls of \<open>formatPickupOrderMessage\<close> on the same order differ in
  the time of composition only: everything before the last line, with the customer, the
  address, the items and the notes, is the same text, and the last line is
  \<open>_Order received at\<close>, the time, and \<open>_\<close>.
\<close>

theorem formatPickupOrderMessage_timestamp_only:
  "\<exists>sections. \<forall>t. formatPickupOrderMessage (p\<lparr>now := t\<rparr>) order
      = sections @ nl @ lit ''_Order received at '' @ t @ lit ''_''"
proof -
  let ?sections = "([55358, 56826] @ lit '' *NEW PICKUP ORDER*'' @ nl @ nl
       @ [55357, 56523] @ lit '' *Customer:* '' @ customerName order @ nl
       @ [55357, 56525] @ lit '' *Address:* '' @ pickupAddress order @ nl
       @ [9200] @ lit '' *Preferred Pickup:* '')
     @ pickupTimeFormatted p (pickupDateTime order)
     @ (nl @ nl @ [55357, 56550] @ lit '' *Items:*'' @ nl)
     @ join nl (map itemLine (items order))
     @ (nl @ (if \<not> falsy (customerNotes order) \<and> trim (the (customerNotes order)) \<noteq> []
              then nl @ [55357, 56541] @ lit '' *Notes:*'' @ nl
                   @ trim (the (customerNotes order)) @ nl
              else []))"
  have "\<forall>t. formatPickupOrderMessage (p\<lparr>now := t\<rparr>) order
      = ?sections @ nl @ lit ''_Order received at '' @ t @ lit ''_''"
    by (simp add: formatPickupOrderMessage_parts pickupTimeFormatted_def)
  then show ?thesis by blast
qed

section \<open>Properties of the Messaging Gateway\<close>

lemma lit_eq_Nil [simp]: "lit s = [] \<longleftrightarrow> s = []"
  by (simp add: lit_def)

lemma twilioTry_messageless:
  assumes "twilioTry env sdk to message = (Inl MessagelessError, sent)"
  shows "(\<exists>a b. construct sdk a b = Some MessagelessError)
         \<or> (\<exists>rq. create sdk rq = Rejected MessagelessError)"
proof (cases "getTwilioClient env sdk")
  case (Inl e)
  then have "e = MessagelessError"
    using assms by (simp add: twilioTry_def)
  then show ?thesis
    using Inl by (auto simp: getTwilioClient_def Let_def split: if_splits option.splits)
next
  case (Inr n)
  let ?rq = "\<lparr>tw_from = trim n, tw_to = lit ''whatsapp:'' @ trim to,
             tw_body = take 4096 message\<rparr>"
  have "create sdk ?rq = Rejected MessagelessError"
    using assms Inr
    by (auto simp: twilioTry_def Let_def sendFailed_def
        split: if_splits twilio_outcome.splits)
  then show ?thesis by blast
qed

lemma twilioCatch_with_message: "e \<noteq> MessagelessError \<Longrightarrow> \<exists>r. twilioCatch e = Inr r"
  by (cases e) (simp_all add: twilioCatch_def)

text \<open>
  \<open>sendWhatsAppMessageTwilio\<close> returns a result whenever the SDK throws no
  \<open>Error\<close> without a message.
\<close>

lemma twilio_returns_with_message:
  assumes "\<forall>a b. construct sdk a b \<noteq> Some MessagelessError"
    and "\<forall>rq. create sdk rq \<noteq> Rejected MessagelessError"
  shows "\<exists>r. fst (sendWhatsAppMessageTwilio env sdk to message) = Inr r"
proof -
  obtain x sent where t: "twilioTry env sdk (the to) (the message) = (x, sent)"
    by (cases "twilioTry env sdk (the to) (the message)")
  show ?thesis
  proof (cases x)
    case (Inl e)
    then have "e \<noteq> MessagelessError"
      using t assms twilioTry_messageless [of env sdk "the to" "the message" sent] by blast
    then obtain r where "twilioCatch e = Inr r"
      using twilioCatch_with_message by blast
    then show ?thesis
      unfolding sendWhatsAppMessageTwilio_def by (simp add: t Inl)
  next
    case (Inr r)
    then show ?thesis
      unfolding sendWhatsAppMessageTwilio_def by (simp add: t)
  qed
qed

lemma webhook_returns:
  "\<exists>r. fst (sendWhatsAppMessage env stringify fetch to message) = Inr r"
proof -
  obtain x sent where t: "waTry env stringify fetch to message = (x, sent)"
    by (cases "waTry env stringify fetch to message")
  show ?thesis
  proof (cases x)
    case (Inl e)
    then show ?thesis
      unfolding sendWhatsAppMessage_def by (cases e) (simp_all add: t)
  next
    case (Inr r)
    then show ?thesis
      unfolding sendWhatsAppMessage_def by (simp add: t)
  qed
qed

text \<open>
  Claim C6 asks that no exception leaves a send operation of the gateway, whatever the
  provider does. \<open>sendWhatsAppMessage\<close> complies (\<open>webhook_returns\<close>), and
  \<open>sendWhatsAppMessageTwilio\<close> does for every exception that has a message or is no
  \<open>Error\<close> (\<open>twilio_returns_with_message\<close>). When the SDK rejects with an
  \<open>Error\<close> that has no message, the \<open>catch\<close> block itself throws and the
  function rejects.
\<close>

theorem sendWhatsAppMessageTwilio_catch_throws:
  "sendWhatsAppMessageTwilio sampleEnv messagelessSdk
      (Some (lit ''+'' @ lit ''250792875310'')) (Some (lit ''Hello''))
     = (Inl includesTypeError,
        [\<lparr>tw_from = lit ''whatsapp:+14155238886'', tw_to = lit ''whatsapp:+250792875310'',
          tw_body = lit ''Hello''\<rparr>])"
  by (simp add: sendWhatsAppMessageTwilio_def twilioTry_def getTwilioClient_def sampleEnv_def
      messagelessSdk_def twilioCatch_def falsy_def stripPrefix_def trim_def isWhitespace_def
      digitsBetween_def isDigit_def lit_def Let_def)

lemma sample_config: "getWhatsAppConfig sampleEnv = Inr sampleConfig"
  by (simp add: getWhatsAppConfig_def sampleEnv_def sampleConfig_def falsy_def Let_def lit_def)

lemma sample_destination: "cleanedDestination (lit ''250792875310'') = lit ''250792875310''"
  by (simp add: cleanedDestination_def lit_def trim_def isWhitespace_def)

lemma sample_destination_ok: "digitsBetween 10 15 (lit ''250792875310'')"
  by (simp add: digitsBetween_def lit_def isDigit_def)

text \<open>
  Claim C4 asks every send operation to turn an accepted request whose response has no
  message identifier into a failure. \<open>sendWhatsAppMessageTwilio\<close> does
  (\<open>twilio_missing_sid\<close>, \<open>twilio_success_has_sid\<close> below);
  \<open>sendWhatsAppMessage\<close> reports success with no \<open>messageId\<close>.
\<close>

theorem webhook_ok_without_id_succeeds:
  "fst (sendWhatsAppMessage sampleEnv sampleStringify okWithoutIdFetch
          (lit ''250792875310'') (lit ''Hello''))
     = Inr \<lparr>success = True, messageId = None, error = None\<rparr>"
  by (simp add: sendWhatsAppMessage_def waTry_def sample_config sample_destination
      sample_destination_ok okWithoutIdFetch_def waResult_def)


lemma webhook_sent:
  "snd (sendWhatsAppMessage env stringify fetch to message)
     = snd (waTry env stringify fetch to message)"
proof -
  obtain x sent where t: "waTry env stringify fetch to message = (x, sent)"
    by (cases "waTry env stringify fetch to message")
  show ?thesis
  proof (cases x)
    case (Inl e)
    then show ?thesis
      unfolding sendWhatsAppMessage_def by (cases e) (simp_all add: t)
  next
    case (Inr r)
    then show ?thesis
      unfolding sendWhatsAppMessage_def by (simp add: t)
  qed
qed

lemma waTry_at_most_two: "length (snd (waTry env stringify fetch to message)) \<le> 2"
  by (simp add: waTry_def Let_def
      split: sum.splits fetch_outcome.splits json_outcome.splits)

lemma allowedListError_final:
  assumes "allowedListError d"
  shows "waResult stringify ph (r\<lparr>resp_ok := False\<rparr>) d
          = sendFailed (allowedListHelp ph (stringify (data_error d)))"
proof -
  obtain e where e: "data_error d = Some e"
    using assms by (auto simp: allowedListError_def split: option.splits)
  show ?thesis
  proof (cases "err_code e = Some 131031")
    case True
    then show ?thesis
      by (simp add: waResult_def e Let_def)
  next
    case False
    then obtain m where m: "err_message e = Some m" "includesStr m (lit ''not in allowed list'')"
      using assms e by (auto simp: allowedListError_def split: option.splits)
    then have "m \<noteq> []"
      by (cases m) (simp_all add: lit_def)
    then show ?thesis
      using m by (simp add: waResult_def e Let_def falsy_def)
  qed
qed

lemma allowedListHelp_plain:
  "includesStr (allowedListHelp ph details) (lit ''Number being sent to API: '' @ ph)"
proof -
  have "allowedListHelp ph details
          = (lit ''Recipient number not in allowed list.'' @ nl @ nl)
            @ (lit ''Number being sent to API: '' @ ph)
            @ (nl @ lit ''Number with + prefix: +'' @ ph @ nl @ nl
     @ lit ''IMPORTANT: Make sure this number is in your Meta allowed recipient list.'' @ nl @ nl
     @ lit ''In Meta Business Suite:'' @ nl
     @ lit ''1. Go to WhatsApp '' @ [8594] @ lit '' API Setup '' @ [8594] @ lit '' ''
       @ [34] @ lit ''To'' @ [34] @ lit '' field settings'' @ nl
     @ lit ''2. Add the number: '' @ ph @ lit '' (digits only, without + prefix)'' @ nl
     @ lit ''3. Meta UI may show it as +'' @ ph @ lit '', but add it as '' @ ph @ nl
     @ lit ''4. Wait a few minutes after adding before trying again'' @ nl @ nl
     @ lit ''Note: If your .env has a local format (e.g., 0792875310), it''
       @ [39] @ lit ''s automatically converted to '' @ ph @ nl @ nl
     @ lit ''Full API error: '' @ details)"
    by (simp add: allowedListHelp_def)
  then show ?thesis
    by (simp only: includesStr_mid)
qed

lemma allowedListHelp_plus:
  "includesStr (allowedListHelp ph details) (lit ''Number with + prefix: +'' @ ph)"
proof -
  have "allowedListHelp ph details
          = (lit ''Recipient number not in allowed list.'' @ nl @ nl
             @ lit ''Number being sent to API: '' @ ph @ nl)
            @ (lit ''Number with + prefix: +'' @ ph)
            @ (nl @ nl
     @ lit ''IMPORTANT: Make sure this number is in your Meta allowed recipient list.'' @ nl @ nl
     @ lit ''In Meta Business Suite:'' @ nl
     @ lit ''1. Go to WhatsApp '' @ [8594] @ lit '' API Setup '' @ [8594] @ lit '' ''
       @ [34] @ lit ''To'' @ [34] @ lit '' field settings'' @ nl
     @ lit ''2. Add the number: '' @ ph @ lit '' (digits only, without + prefix)'' @ nl
     @ lit ''3. Meta UI may show it as +'' @ ph @ lit '', but add it as '' @ ph @ nl
     @ lit ''4. Wait a few minutes after adding before trying again'' @ nl @ nl
     @ lit ''Note: If your .env has a local format (e.g., 0792875310), it''
       @ [39] @ lit ''s automatically converted to '' @ ph @ nl @ nl
     @ lit ''Full API error: '' @ details)"
    by (simp add: allowedListHelp_def)
  then show ?thesis
    by (simp only: includesStr_mid)
qed

lemma allowedListHelp_steps:
  "includesStr (allowedListHelp ph details)
     (lit ''2. Add the number: '' @ ph @ lit '' (digits only, without + prefix)'')"
proof -
  have "allowedListHelp ph details
          = (lit ''Recipient number not in allowed list.'' @ nl @ nl
             @ lit ''Number being sent to API: '' @ ph @ nl
             @ lit ''Number with + prefix: +'' @ ph @ nl @ nl
     @ lit ''IMPORTANT: Make sure this number is in your Meta allowed recipient list.'' @ nl @ nl
     @ lit ''In Meta Business Suite:'' @ nl
     @ lit ''1. Go to WhatsApp '' @ [8594] @ lit '' API Setup '' @ [8594] @ lit '' ''
       @ [34] @ lit ''To'' @ [34] @ lit '' field settings'' @ nl)
     @ (lit ''2. Add the number: '' @ ph @ lit '' (digits only, without + prefix)'')
     @ (nl
     @ lit ''3. Meta UI may show it as +'' @ ph @ lit '', but add it as '' @ ph @ nl
     @ lit ''4. Wait a few minutes after adding before trying again'' @ nl @ nl
     @ lit ''Note: If your .env has a local format (e.g., 0792875310), it''
       @ [39] @ lit ''s automatically converted to '' @ ph @ nl @ nl
     @ lit ''Full API error: '' @ details)"
    by (simp add: allowedListHelp_def)
  then show ?thesis
    by (simp only: includesStr_mid)
qed

text \<open>
  Claim C3, amended. \<open>sendWhatsAppMessage\<close> never issues more than two requests.
  When the first response is a failure with the condition "recipient not in allowed list"
  (by the text of the error or by the code 131031), exactly one more request is issued,
  to the destination with a leading \<open>+\<close>. When that retry fails with the same
  condition, the result is one failure whose message names the destination in both forms
  and lists the steps to take.
\<close>

theorem sendWhatsAppMessage_single_retry:
  "length (snd (sendWhatsAppMessage env stringify fetch to message)) \<le> 2
   \<and> (getWhatsAppConfig env = Inr config
        \<and> digitsBetween 10 15 (cleanedDestination to)
        \<and> fetch 0 (waRequest config (cleanedDestination to) message) = FetchResolved r1
        \<and> resp_json r1 = JsonValue d1 \<and> \<not> resp_ok r1 \<and> allowedListError d1
      \<longrightarrow> snd (sendWhatsAppMessage env stringify fetch to message)
            = [waRequest config (cleanedDestination to) message,
               waRequest config (lit ''+'' @ cleanedDestination to) message]
          \<and> (\<forall>r2 d2.
                fetch 1 (waRequest config (lit ''+'' @ cleanedDestination to) message)
                  = FetchResolved r2
                \<and> resp_json r2 = JsonValue d2 \<and> \<not> resp_ok r2 \<and> allowedListError d2
              \<longrightarrow> fst (sendWhatsAppMessage env stringify fetch to message)
                    = Inr (sendFailed (allowedListHelp (cleanedDestination to)
                                         (stringify (data_error d2))))))
   \<and> includesStr (allowedListHelp ph details) (lit ''Number being sent to API: '' @ ph)
   \<and> includesStr (allowedListHelp ph details) (lit ''Number with + prefix: +'' @ ph)
   \<and> includesStr (allowedListHelp ph details)
        (lit ''2. Add the number: '' @ ph @ lit '' (digits only, without + prefix)'')"
proof (intro conjI impI allI)
  show "length (snd (sendWhatsAppMessage env stringify fetch to message)) \<le> 2"
    by (simp only: webhook_sent waTry_at_most_two)
next
  assume a: "getWhatsAppConfig env = Inr config
        \<and> digitsBetween 10 15 (cleanedDestination to)
        \<and> fetch 0 (waRequest config (cleanedDestination to) message) = FetchResolved r1
        \<and> resp_json r1 = JsonValue d1 \<and> \<not> resp_ok r1 \<and> allowedListError d1"
  then show "snd (sendWhatsAppMessage env stringify fetch to message)
            = [waRequest config (cleanedDestination to) message,
               waRequest config (lit ''+'' @ cleanedDestination to) message]"
    by (simp add: webhook_sent waTry_def Let_def
        split: fetch_outcome.splits json_outcome.splits)
next
  fix r2 d2
  assume a: "getWhatsAppConfig env = Inr config
        \<and> digitsBetween 10 15 (cleanedDestination to)
        \<and> fetch 0 (waRequest config (cleanedDestination to) message) = FetchResolved r1
        \<and> resp_json r1 = JsonValue d1 \<and> \<not> resp_ok r1 \<and> allowedListError d1"
    and b: "fetch 1 (waRequest config (lit ''+'' @ cleanedDestination to) message)
                  = FetchResolved r2
                \<and> resp_json r2 = JsonValue d2 \<and> \<not> resp_ok r2 \<and> allowedListError d2"
  have r2: "r2 = r2\<lparr>resp_ok := False\<rparr>"
    using b by simp
  have "waResult stringify (cleanedDestination to) r2 d2
          = sendFailed (allowedListHelp (cleanedDestination to) (stringify (data_error d2)))"
    using b allowedListError_final [of d2 stringify "cleanedDestination to" r2] r2 by simp
  then have "waTry env stringify fetch to message
          = (Inr (sendFailed (allowedListHelp (cleanedDestination to) (stringify (data_error d2)))),
             [waRequest config (cleanedDestination to) message,
              waRequest config (lit ''+'' @ cleanedDestination to) message])"
    using a b by (simp add: waTry_def Let_def)
  then show "fst (sendWhatsAppMessage env stringify fetch to message)
                    = Inr (sendFailed (allowedListHelp (cleanedDestination to)
                                         (stringify (data_error d2))))"
    by (simp add: sendWhatsAppMessage_def)
next
  show "includesStr (allowedListHelp ph details) (lit ''Number being sent to API: '' @ ph)"
    by (rule allowedListHelp_plain)
next
  show "includesStr (allowedListHelp ph details) (lit ''Number with + prefix: +'' @ ph)"
    by (rule allowedListHelp_plus)
next
  show "includesStr (allowedListHelp ph details)
        (lit ''2. Add the number: '' @ ph @ lit '' (digits only, without + prefix)'')"
    by (rule allowedListHelp_steps)
qed


lemma lit_append: "lit (a @ b) = lit a @ lit b"
  by (simp add: lit_def)

lemma notAllowedData_condition: "allowedListError notAllowedData"
  by (simp add: allowedListError_def notAllowedData_def lit_def)

lemma notAllowedData_details: "sampleStringify (data_error notAllowedData) = lit ''{...}''"
  by (simp add: sampleStringify_def notAllowedData_def)

lemma invalid_parameter_other: "\<not> includesStr (lit ''Invalid parameter'') (lit ''not in allowed list'')"
  by (simp add: lit_def)

theorem sendWhatsAppMessage_single_retry_witness:
  "snd (sendWhatsAppMessage sampleEnv sampleStringify notAllowedFetch
          (lit ''250792875310'') (lit ''Hello''))
     = [waRequest sampleConfig (lit ''250792875310'') (lit ''Hello''),
        waRequest sampleConfig (lit ''+'' @ lit ''250792875310'') (lit ''Hello'')]
   \<and> fst (sendWhatsAppMessage sampleEnv sampleStringify notAllowedFetch
            (lit ''250792875310'') (lit ''Hello''))
     = Inr (sendFailed (allowedListHelp (lit ''250792875310'') (lit ''{...}'')))"
  using sendWhatsAppMessage_single_retry
    [where env = sampleEnv and stringify = sampleStringify and fetch = notAllowedFetch
       and to = "lit ''250792875310''" and message = "lit ''Hello''"
       and config = sampleConfig and ?r1.0 = notAllowedResponse and ?d1.0 = notAllowedData]
  by (simp add: sample_config sample_destination sample_destination_ok notAllowedFetch_def
      notAllowedResponse_def notAllowedData_condition notAllowedData_details)

text \<open>
  Claim C3 as stated fails when the retry is refused for another reason: the result then
  carries the error of the retry alone.
\<close>

theorem sendWhatsAppMessage_retry_refused_otherwise:
  "snd (sendWhatsAppMessage sampleEnv sampleStringify retryRefusedFetch
          (lit ''250792875310'') (lit ''Hello''))
     = [waRequest sampleConfig (lit ''250792875310'') (lit ''Hello''),
        waRequest sampleConfig (lit ''+'' @ lit ''250792875310'') (lit ''Hello'')]
   \<and> fst (sendWhatsAppMessage sampleEnv sampleStringify retryRefusedFetch
            (lit ''250792875310'') (lit ''Hello''))
     = Inr (sendFailed (lit ''Invalid parameter''))
   \<and> \<not> includesStr (lit ''Invalid parameter'') (lit ''+250792875310'')
   \<and> \<not> includesStr (lit ''Invalid parameter'') (lit ''250792875310'')"
proof (intro conjI)
  have t: "waTry sampleEnv sampleStringify retryRefusedFetch (lit ''250792875310'') (lit ''Hello'')
      = (Inr (sendFailed (lit ''Invalid parameter'')),
         [waRequest sampleConfig (lit ''250792875310'') (lit ''Hello''),
          waRequest sampleConfig (lit ''+'' @ lit ''250792875310'') (lit ''Hello'')])"
    by (simp add: waTry_def sample_config sample_destination sample_destination_ok
        retryRefusedFetch_def notAllowedResponse_def notAllowedData_condition
        invalidParameterResponse_def waResult_def falsy_def Let_def invalid_parameter_other)
  show "snd (sendWhatsAppMessage sampleEnv sampleStringify retryRefusedFetch
          (lit ''250792875310'') (lit ''Hello''))
     = [waRequest sampleConfig (lit ''250792875310'') (lit ''Hello''),
        waRequest sampleConfig (lit ''+'' @ lit ''250792875310'') (lit ''Hello'')]"
    by (simp add: sendWhatsAppMessage_def t)
  show "fst (sendWhatsAppMessage sampleEnv sampleStringify retryRefusedFetch
            (lit ''250792875310'') (lit ''Hello''))
     = Inr (sendFailed (lit ''Invalid parameter''))"
    by (simp add: sendWhatsAppMessage_def t)
  show "\<not> includesStr (lit ''Invalid parameter'') (lit ''+250792875310'')"
    by (simp add: lit_def)
  show "\<not> includesStr (lit ''Invalid parameter'') (lit ''250792875310'')"
    by (simp add: lit_def)
qed

lemma twilio_success_has_sid:
  assumes "fst (sendWhatsAppMessageTwilio env sdk to message) = Inr r" and "success r"
  shows "\<exists>rq sid. create sdk rq = Resolved (Some sid) \<and> sid \<noteq> [] \<and> messageId r = Some sid"
  using assms
  by (auto simp: sendWhatsAppMessageTwilio_def twilioTry_def twilioCatch_def sendFailed_def
      Let_def falsy_def
      split: if_splits sum.splits twilio_outcome.splits js_exn.splits)

lemma twilio_missing_sid:
  assumes "snd (sendWhatsAppMessageTwilio env sdk to message) = [rq]"
    and "create sdk rq = ResolvedEmpty \<or> create sdk rq = Resolved None
         \<or> create sdk rq = Resolved (Some [])"
  shows "fst (sendWhatsAppMessageTwilio env sdk to message)
          = Inr (sendFailed (lit ''Twilio returned an invalid response (missing message SID).''))"
  using assms
  by (auto simp: sendWhatsAppMessageTwilio_def twilioTry_def Let_def falsy_def
      split: if_splits sum.splits twilio_outcome.splits)


section \<open>Properties of the customer confirmation\<close>

lemma lit_eq_iff [simp]: "lit a = lit b \<longleftrightarrow> a = b"
  by (simp add: lit_def inj_map_eq_map inj_on_def)

lemma length_lit [simp]: "length (lit s) = length s"
  by (simp add: lit_def)

lemma trim_eq_Nil: "trim s = [] \<longleftrightarrow> (\<forall>c \<in> set s. isWhitespace c)"
proof -
  have "trim s = [] \<longleftrightarrow> (\<forall>c \<in> set (dropWhile isWhitespace s). isWhitespace c)"
    by (simp add: trim_def dropWhile_eq_Nil_conv)
  also have "\<dots> \<longleftrightarrow> dropWhile isWhitespace s = []"
  proof
    assume a: "\<forall>c \<in> set (dropWhile isWhitespace s). isWhitespace c"
    show "dropWhile isWhitespace s = []"
    proof (rule ccontr)
      assume n: "dropWhile isWhitespace s \<noteq> []"
      then have "\<not> isWhitespace (hd (dropWhile isWhitespace s))"
        by (rule hd_dropWhile)
      moreover have "hd (dropWhile isWhitespace s) \<in> set (dropWhile isWhitespace s)"
        using n by simp
      ultimately show False using a by blast
    qed
  next
    assume "dropWhile isWhitespace s = []"
    then show "\<forall>c \<in> set (dropWhile isWhitespace s). isWhitespace c"
      by (auto dest: set_dropWhileD)
  qed
  also have "\<dots> \<longleftrightarrow> (\<forall>c \<in> set s. isWhitespace c)"
    by (rule dropWhile_eq_Nil_conv)
  finally show ?thesis .
qed





section \<open>Properties of the Order Intake Handler\<close>

lemmas schema_eval =
  orderSchema_def zItems_def zItem_def zQuantity_def zStringMin1_def zStringOptional_def
  parseInt10_def digitsValue_def invalidType_def isWhitespace_def isDigit_def lit_def

lemma sample_schema: "orderSchema (Some sampleBody) = Valid sampleOrder"
  by (simp add: schema_eval sampleBody_def sampleOrder_def)

lemma bad_quantity_schema: "orderSchema (Some badQuantityBody) = Throws quantityZodError"
  by (simp add: schema_eval badQuantityBody_def)

lemma empty_items_schema:
  "orderSchema (Some emptyItemsBody)
     = Issues [([Key (lit ''items'')], lit ''At least one item is required'')]"
  by (simp add: schema_eval emptyItemsBody_def)

lemma sample_sanitize: "sanitize sampleOrder = sampleOrder"
  by (simp add: sanitize_def sampleOrder_def trim_def isWhitespace_def lit_def falsy_def)

lemma sample_checks: "checkSanitized sampleOrder = None"
  by (simp add: checkSanitized_def sampleOrder_def trim_def isWhitespace_def lit_def)


lemma both_Valid:
  "both a b = Valid r \<longleftrightarrow> (\<exists>x y. a = Valid x \<and> b = Valid y \<and> r = (x, y))"
  by (cases a; cases b) auto

lemma mapParsed_Valid: "mapParsed f a = Valid r \<longleftrightarrow> (\<exists>x. a = Valid x \<and> r = f x)"
  by (cases a) auto

lemma zStringMin1_Valid: "zStringMin1 msg path v = Valid s \<Longrightarrow> s \<noteq> []"
  by (auto simp: zStringMin1_def split: option.splits json.splits if_splits)

lemma zQuantity_Valid: "zQuantity path v = Valid q \<Longrightarrow> 0 < q"
  by (auto simp: zQuantity_def Let_def split: option.splits json.splits if_splits)

lemma zItem_Valid: "zItem path v = Valid item \<Longrightarrow> name item \<noteq> [] \<and> 0 < quantity item"
  by (auto simp: zItem_def mapParsed_Valid both_Valid split: option.splits json.splits
      dest: zStringMin1_Valid zQuantity_Valid)

lemma zElements_Valid:
  "zElements path i xs = Valid its
    \<Longrightarrow> length its = length xs \<and> (\<forall>item \<in> set its. name item \<noteq> [] \<and> 0 < quantity item)"
proof (induction xs arbitrary: i its)
  case Nil
  then show ?case by simp
next
  case (Cons x xs)
  from Cons.prems obtain y ys where
    y: "zItem (path @ [Index i]) (Some x) = Valid y" and
    ys: "zElements path (Suc i) xs = Valid ys" and
    its: "its = y # ys"
    by (auto simp: mapParsed_Valid both_Valid)
  show ?case
    using Cons.IH [OF ys] zItem_Valid [OF y] its by simp
qed

lemma zItems_Valid:
  assumes "zItems path v = Valid its"
  shows "its \<noteq> [] \<and> (\<forall>item \<in> set its. name item \<noteq> [] \<and> 0 < quantity item)"
proof -
  obtain xs where xs: "v = Some (JArr xs)"
    using assms by (auto simp: zItems_def split: option.splits json.splits)
  have e: "zElements path 0 xs = Valid its" and ne: "xs \<noteq> []"
    using assms xs by (auto simp: zItems_def mapParsed_Valid both_Valid split: if_splits)
  show ?thesis
    using zElements_Valid [OF e] ne by auto
qed

lemma accepted_order_conditions:
  assumes "orderSchema v = Valid order"
  shows "customerName order \<noteq> [] \<and> pickupAddress order \<noteq> [] \<and> items order \<noteq> []
         \<and> (\<forall>item \<in> set (items order). name item \<noteq> [] \<and> 0 < quantity item)"
proof -
  obtain kvs where v: "v = Some (JObj kvs)"
    using assms by (auto simp: orderSchema_def split: option.splits json.splits)
  obtain cn pa dt its no ph where
    cn: "zStringMin1 (lit ''Customer name is required'') [Key (lit ''customerName'')]
               (map_of kvs (lit ''customerName'')) = Valid cn" and
    pa: "zStringMin1 (lit ''Pickup address is required'') [Key (lit ''pickupAddress'')]
               (map_of kvs (lit ''pickupAddress'')) = Valid pa" and
    it: "zItems [Key (lit ''items'')] (map_of kvs (lit ''items'')) = Valid its" and
    ord: "order = \<lparr>customerName = cn, pickupAddress = pa, pickupDateTime = dt, items = its,
                    customerNotes = no, customerPhone = ph\<rparr>"
    using assms v by (auto simp: orderSchema_def mapParsed_Valid both_Valid)
  show ?thesis
    using zStringMin1_Valid [OF cn] zStringMin1_Valid [OF pa] zItems_Valid [OF it] ord by simp
qed


lemma handler_validated:
  assumes "reqMethod req = lit ''POST''" and "parseBody p (reqBody req) = Some b"
    and "isPlainObject b" and "orderSchema (Some b) = Valid v"
    and "checkSanitized (sanitize v) = None"
  shows "handler p sendDry sendCust req = notifyAndRespond p sendDry sendCust req (sanitize v)"
  using assms by (simp add: handler_def)

lemma notify_dry_cleaner_failed:
  assumes "sendDry order = Inr d" and "\<not> success d"
  shows "fst (notifyAndRespond p sendDry sendCust req order)
          = \<lparr>status = 500,
             payload = \<lparr>r_success = False, r_orderId = Some (newOrderId p), r_messageId = None,
                        r_message = None,
                        r_error = Some (lit ''Failed to send order notification. Please contact support with order ID: ''
                                        @ newOrderId p)\<rparr>\<rparr>"
  using assms by (simp add: notifyAndRespond_def Let_def)

lemma notify_dry_cleaner_sent:
  assumes "sendDry order = Inr d" and "success d"
  shows "fst (notifyAndRespond p sendDry sendCust req order)
          = \<lparr>status = 200,
             payload = \<lparr>r_success = True, r_orderId = Some (newOrderId p),
                        r_messageId = messageId d,
                        r_message = Some (lit ''Order submitted successfully''),
                        r_error = None\<rparr>\<rparr>"
  using assms by (simp add: notifyAndRespond_def Let_def)

text \<open>
  The hardened handler answers a failed dry-cleaner send with the order id and a fixed
  text: the response is the same whatever error the send reported.
\<close>

lemma handler_dry_cleaner_failed:
  assumes "reqMethod req = lit ''POST''" and "parseBody p (reqBody req) = Some b"
    and "isPlainObject b" and "orderSchema (Some b) = Valid v"
    and "checkSanitized (sanitize v) = None"
    and "sendDry (sanitize v) = Inr d" and "\<not> success d"
  shows "fst (handler p sendDry sendCust req)
          = \<lparr>status = 500,
             payload = \<lparr>r_success = False, r_orderId = Some (newOrderId p), r_messageId = None,
                        r_message = None,
                        r_error = Some (lit ''Failed to send order notification. Please contact support with order ID: ''
                                        @ newOrderId p)\<rparr>\<rparr>"
  using assms handler_validated [of req p b v sendDry sendCust]
    notify_dry_cleaner_failed [of sendDry "sanitize v" d p sendCust req]
  by simp

lemma handler_issues:
  assumes "reqMethod req = lit ''POST''" and "parseBody p (reqBody req) = Some b"
    and "isPlainObject b" and "orderSchema (Some b) = Issues errors"
  shows "handler p sendDry sendCust req
          = (errorReply 400 (lit ''Validation failed: ''
                             @ join (lit '', '') (map renderIssue errors)), [])"
  using assms by (simp add: handler_def)

text \<open>
  The hardened handler: with the dry-cleaner send succeeded, the response is 200 with
  the \<open>messageId\<close> of that send, whether the customer send returns a failure or
  throws.
\<close>

lemma hardened_customer_failure_keeps_success:
  "reqMethod req = lit ''POST'' \<and> parseBody p (reqBody req) = Some b \<and> isPlainObject b
      \<and> orderSchema (Some b) = Valid v \<and> checkSanitized (sanitize v) = None
      \<and> \<not> falsy (customerPhone (sanitize v))
      \<and> sendDry (sanitize v) = Inr d \<and> success d
      \<and> (\<forall>c. sendCust (the (customerPhone (sanitize v))) (customerName (sanitize v))
                 (case pickupDateTime (sanitize v) of None \<Rightarrow> [] | Some t \<Rightarrow> t) = Inr c
               \<longrightarrow> \<not> success c)
    \<longrightarrow> fst (handler p sendDry sendCust req)
          = \<lparr>status = 200,
             payload = \<lparr>r_success = True, r_orderId = Some (newOrderId p),
                        r_messageId = messageId d,
                        r_message = Some (lit ''Order submitted successfully''),
                        r_error = None\<rparr>\<rparr>"
proof
  assume a: "reqMethod req = lit ''POST'' \<and> parseBody p (reqBody req) = Some b \<and> isPlainObject b
      \<and> orderSchema (Some b) = Valid v \<and> checkSanitized (sanitize v) = None
      \<and> \<not> falsy (customerPhone (sanitize v))
      \<and> sendDry (sanitize v) = Inr d \<and> success d
      \<and> (\<forall>c. sendCust (the (customerPhone (sanitize v))) (customerName (sanitize v))
                 (case pickupDateTime (sanitize v) of None \<Rightarrow> [] | Some t \<Rightarrow> t) = Inr c
               \<longrightarrow> \<not> success c)"
  then have "handler p sendDry sendCust req = notifyAndRespond p sendDry sendCust req (sanitize v)"
    using handler_validated [of req p b v sendDry sendCust] by simp
  then show "fst (handler p sendDry sendCust req)
          = \<lparr>status = 200,
             payload = \<lparr>r_success = True, r_orderId = Some (newOrderId p),
                        r_messageId = messageId d,
                        r_message = Some (lit ''Order submitted successfully''),
                        r_error = None\<rparr>\<rparr>"
    using a notify_dry_cleaner_sent [of sendDry "sanitize v" d p sendCust req] by simp
qed

text \<open>
  The handler of the Express route: a customer send that returns, with success or not,
  leaves the response at 200; one that throws is caught by the only \<open>try\<close> of the
  handler and turns the response into 500.
\<close>

lemma express_customer_returned:
  assumes "orderSchema received = Valid v" and "sendDry v = Inr d" and "success d"
    and "sendCust (the (customerPhone v)) (customerName v)
           (case pickupDateTime v of None \<Rightarrow> [] | Some t \<Rightarrow> t) = Inr c"
  shows "handlePickupOrder p sendDry sendCust received
          = \<lparr>status = 200,
             payload = \<lparr>r_success = True, r_orderId = Some (newOrderId p),
                        r_messageId = messageId d,
                        r_message = Some (lit ''Order submitted successfully''),
                        r_error = None\<rparr>\<rparr>"
  using assms by (simp add: handlePickupOrder_def Let_def)

lemma express_customer_fault:
  assumes "orderSchema received = Valid v" and "sendDry v = Inr d" and "success d"
    and "\<not> falsy (customerPhone v)"
    and "sendCust (the (customerPhone v)) (customerName v)
           (case pickupDateTime v of None \<Rightarrow> [] | Some t \<Rightarrow> t) = Inl e"
  shows "handlePickupOrder p sendDry sendCust received = internalError e"
  using assms by (simp add: handlePickupOrder_def Let_def)

section \<open>Properties of the handlers on the sample inputs\<close>

lemmas twilio_eval =
  twilioTry_def getTwilioClient_def sampleEnv_def falsy_def stripPrefix_def trim_def
  isWhitespace_def digitsBetween_def isDigit_def lit_def Let_def

lemma twilioTry_dry_rejected:
  "twilioTry sampleEnv rejectingSdk (lit ''+'' @ lit ''250784123456'') m
     = (Inl (JsError (lit ''Authenticate'')),
        [\<lparr>tw_from = lit ''whatsapp:+14155238886'', tw_to = lit ''whatsapp:+250784123456'',
          tw_body = take 4096 m\<rparr>])"
  by (simp add: twilio_eval rejectingSdk_def)


lemma authenticate_passes_through:
  "twilioCatch (JsError (lit ''Authenticate'')) = Inr (sendFailed (lit ''Authenticate''))"
  by (simp add: twilioCatch_def lit_def)

lemma trim_Nil [simp]: "trim [] = []"
  by (simp add: trim_def)

lemma plus_number_not_blank: "trim (lit ''+'' @ n) \<noteq> []"
  by (simp add: trim_eq_Nil lit_def isWhitespace_def)

lemma twilio_unfold:
  assumes "trim m \<noteq> []" and "length m \<le> 4096"
  shows "sendWhatsAppMessageTwilio env sdk (Some (lit ''+'' @ n)) (Some m)
          = (case twilioTry env sdk (lit ''+'' @ n) m of
               (Inl e, sent) \<Rightarrow> (twilioCatch e, sent)
             | (Inr r, sent) \<Rightarrow> (Inr r, sent))"
proof -
  have "m \<noteq> []" using assms(1) by auto
  then show ?thesis
    using assms plus_number_not_blank [of n]
    by (simp add: sendWhatsAppMessageTwilio_def falsy_def)
qed

lemma pickup_message_not_blank: "trim (formatPickupOrderMessage p order) \<noteq> []"
proof -
  have "55358 \<in> set (formatPickupOrderMessage p order)"
    by (simp add: formatPickupOrderMessage_parts)
  moreover have "\<not> isWhitespace 55358"
    by (simp add: isWhitespace_def)
  ultimately show ?thesis
    unfolding trim_eq_Nil by blast
qed

lemma confirmation_message_not_blank: "trim (formatCustomerConfirmationMessage p nm dt) \<noteq> []"
proof -
  have "9989 \<in> set (formatCustomerConfirmationMessage p nm dt)"
    by (simp add: formatCustomerConfirmationMessage_def)
  moreover have "\<not> isWhitespace 9989"
    by (simp add: isWhitespace_def)
  ultimately show ?thesis
    unfolding trim_eq_Nil by blast
qed

lemma sample_pickup_message_length:
  "length (formatPickupOrderMessage samplePlatform sampleOrder) \<le> 4096"
  by (simp add: formatPickupOrderMessage_parts pickupTimeFormatted_def samplePlatform_def
      sampleOrder_def itemLine_def showInt_def showNat.simps nl_def falsy_def)


lemma sample_dry_number:
  "DRY_CLEANER_WHATSAPP_NUMBER sampleEnv = Some (lit ''0784123456'')"
  by (simp add: sampleEnv_def)

lemma sample_dry_number_normalized:
  "normalizePhoneNumber (Some (lit ''0784123456'')) (lit ''250'') = Some (lit ''250784123456'')"
  by (simp add: normalize_eval)

lemma sample_dry_send_rejected:
  "fst (sendPickupOrderToDryCleaner sampleEnv samplePlatform rejectingSdk sampleOrder)
     = Inr (sendFailed (lit ''Authenticate''))"
  using sample_pickup_message_length
  by (simp add: sendPickupOrderToDryCleaner_def sample_dry_number sample_dry_number_normalized
      falsy_def Let_def twilio_unfold pickup_message_not_blank twilioTry_dry_rejected
      authenticate_passes_through)





lemma sample_parse: "parseBody p (reqBody sampleRequest) = Some sampleBody"
  by (simp add: parseBody_def sampleRequest_def sampleBody_def bodyFalsy_def)

lemma twilioTry_dry_delivered:
  "twilioTry sampleEnv messagelessSdk (lit ''+'' @ lit ''250784123456'') m
     = (Inr \<lparr>success = True, messageId = Some (lit ''SM0001''), error = None\<rparr>,
        [\<lparr>tw_from = lit ''whatsapp:+14155238886'', tw_to = lit ''whatsapp:+250784123456'',
          tw_body = take 4096 m\<rparr>])"
  by (simp add: twilio_eval messagelessSdk_def)

lemma twilioTry_customer_messageless:
  "twilioTry sampleEnv messagelessSdk (lit ''+'' @ lit ''250792875310'') m
     = (Inl MessagelessError,
        [\<lparr>tw_from = lit ''whatsapp:+14155238886'', tw_to = lit ''whatsapp:+250792875310'',
          tw_body = take 4096 m\<rparr>])"
  by (simp add: twilio_eval messagelessSdk_def)

lemma sample_dry_send_delivered:
  "fst (sendPickupOrderToDryCleaner sampleEnv samplePlatform messagelessSdk sampleOrder)
     = Inr \<lparr>success = True, messageId = Some (lit ''SM0001''), error = None\<rparr>"
  using sample_pickup_message_length
  by (simp add: sendPickupOrderToDryCleaner_def sample_dry_number sample_dry_number_normalized
      falsy_def Let_def twilio_unfold pickup_message_not_blank twilioTry_dry_delivered)

lemma sample_confirmation_length_date:
  "length (formatCustomerConfirmationMessage samplePlatform (lit ''Amahoro'') (lit ''not-a-date''))
     \<le> 4096"
  by (simp add: formatCustomerConfirmationMessage_def confirmationTimeFormatted_def nl_def
      samplePlatform_def)

lemma sample_name_unchanged: "take 100 (trim (lit ''Amahoro'')) = lit ''Amahoro''"
  by (simp add: trim_def isWhitespace_def lit_def)

lemma sample_confirmation_throws:
  "fst (sendCustomerConfirmation sampleEnv samplePlatform messagelessSdk
          (lit ''0792875310'') (lit ''Amahoro'') (lit ''not-a-date''))
     = Inl includesTypeError"
  using sample_confirmation_length_date
  by (simp add: sendCustomerConfirmation_def normalize_example_trunk sample_name_unchanged
      Let_def twilio_unfold confirmation_message_not_blank twilioTry_customer_messageless
      twilioCatch_def)

text \<open>
  On the same order and with the same provider, the hardened handler answers 200.
\<close>

lemma hardened_sample_customer_fault:
  "fst (handlerDeployed sampleEnv samplePlatform messagelessSdk messagelessSdk sampleRequest)
     = \<lparr>status = 200,
        payload = \<lparr>r_success = True, r_orderId = Some (lit ''ORD-MHI3K2A1-X7Q9ZB''),
                   r_messageId = Some (lit ''SM0001''),
                   r_message = Some (lit ''Order submitted successfully''),
                   r_error = None\<rparr>\<rparr>"
proof -
  let ?d = "\<lparr>success = True, messageId = Some (lit ''SM0001''), error = None\<rparr>"
  have h1: "reqMethod sampleRequest = lit ''POST''"
    by (simp add: sampleRequest_def)
  have h3: "isPlainObject sampleBody"
    by (simp add: sampleBody_def)
  have h5: "checkSanitized (sanitize sampleOrder) = None"
    by (simp add: sample_sanitize sample_checks)
  have h6: "\<not> falsy (customerPhone sampleOrder)"
    by (simp add: sampleOrder_def falsy_def)
  have h7: "fst (sendPickupOrderToDryCleaner sampleEnv samplePlatform messagelessSdk sampleOrder)
              = Inr ?d"
    by (rule sample_dry_send_delivered)
  have h9: "fst (sendCustomerConfirmation sampleEnv samplePlatform messagelessSdk
                   (the (customerPhone sampleOrder)) (customerName sampleOrder)
                   (case pickupDateTime sampleOrder of None \<Rightarrow> [] | Some t \<Rightarrow> t))
              = Inl includesTypeError"
    using sample_confirmation_throws by (simp add: sampleOrder_def)
  have oid: "newOrderId samplePlatform = lit ''ORD-MHI3K2A1-X7Q9ZB''"
    by (simp add: samplePlatform_def)
  show ?thesis
    using hardened_customer_failure_keeps_success
      [where req = sampleRequest and p = samplePlatform and b = sampleBody and v = sampleOrder
         and sendDry = "\<lambda>order. fst (sendPickupOrderToDryCleaner sampleEnv samplePlatform messagelessSdk order)"
         and sendCust = "\<lambda>phone cname dt.
                fst (sendCustomerConfirmation sampleEnv samplePlatform messagelessSdk phone cname dt)"
         and d = ?d]
      h1 h3 h5 h6 h7 h9 oid
    by (simp add: handlerDeployed_def sample_parse sample_schema sample_sanitize)
qed

text \<open>
  Claim C5 asks that a customer confirmation that fails, by returning
  \<open>success = false\<close> or by throwing, leaves the response at 200 with the
  \<open>messageId\<close> of the dry-cleaner send. The hardened handler complies
  (\<open>hardened_customer_failure_keeps_success\<close>), and so does the handler of the Express
  route when the send returns (\<open>express_customer_returned\<close>). That handler has no
  \<open>try\<close> around the customer send: here the dry cleaner's message is delivered,
  the provider rejects the confirmation with an \<open>Error\<close> that has no message, the
  send throws, and the response is 500.
\<close>

theorem handlePickupOrder_customer_fault_is_500:
  "fst (sendPickupOrderToDryCleaner sampleEnv samplePlatform messagelessSdk sampleOrder)
     = Inr \<lparr>success = True, messageId = Some (lit ''SM0001''), error = None\<rparr>
   \<and> fst (sendCustomerConfirmation sampleEnv samplePlatform messagelessSdk
            (lit ''0792875310'') (lit ''Amahoro'') (lit ''not-a-date''))
     = Inl includesTypeError
   \<and> handlePickupOrderDeployed sampleEnv samplePlatform messagelessSdk messagelessSdk
        (Some sampleBody)
     = \<lparr>status = 500,
        payload = \<lparr>r_success = False, r_orderId = None, r_messageId = None, r_message = None,
                   r_error = Some (lit ''Internal server error: ''
                                   @ lit ''Cannot read properties of undefined (reading ''
                                   @ [39] @ lit ''includes'' @ [39] @ lit '')'')\<rparr>\<rparr>"
proof -
  have h9: "fst (sendCustomerConfirmation sampleEnv samplePlatform messagelessSdk
                   (the (customerPhone sampleOrder)) (customerName sampleOrder)
                   (case pickupDateTime sampleOrder of None \<Rightarrow> [] | Some t \<Rightarrow> t))
              = Inl includesTypeError"
    using sample_confirmation_throws by (simp add: sampleOrder_def)
  have h6: "\<not> falsy (customerPhone sampleOrder)"
    by (simp add: sampleOrder_def falsy_def)
  have "handlePickupOrderDeployed sampleEnv samplePlatform messagelessSdk messagelessSdk
          (Some sampleBody) = internalError includesTypeError"
    unfolding handlePickupOrderDeployed_def
    using express_customer_fault
      [where received = "Some sampleBody" and v = sampleOrder
         and sendDry = "\<lambda>order. fst (sendPickupOrderToDryCleaner sampleEnv samplePlatform messagelessSdk order)"
         and sendCust = "\<lambda>phone cname dt.
                fst (sendCustomerConfirmation sampleEnv samplePlatform messagelessSdk phone cname dt)"
         and d = "\<lparr>success = True, messageId = Some (lit ''SM0001''), error = None\<rparr>"
         and e = includesTypeError and p = samplePlatform]
      sample_schema sample_dry_send_delivered h6 h9
    by simp
  then show ?thesis
    using sample_dry_send_delivered sample_confirmation_throws
    by (simp add: internalError_def includesTypeError_def errorReply_def)
qed

text \<open>
  Claim C1 asks that the response to a failed dry-cleaner send never carries the error
  text of the provider. The hardened handler complies (\<open>handler_dry_cleaner_failed\<close>);
  the handler of the Express route puts the error of the \<open>MessagingResult\<close> into
  the body: here the provider rejects with \<open>Authenticate\<close>.
\<close>

theorem handlePickupOrder_echoes_provider_error:
  "fst (sendPickupOrderToDryCleaner sampleEnv samplePlatform rejectingSdk sampleOrder)
     = Inr (sendFailed (lit ''Authenticate''))
   \<and> handlePickupOrderDeployed sampleEnv samplePlatform rejectingSdk acceptingSdk (Some sampleBody)
     = \<lparr>status = 500,
        payload = \<lparr>r_success = False, r_orderId = Some (lit ''ORD-MHI3K2A1-X7Q9ZB''),
                   r_messageId = None, r_message = None,
                   r_error = Some (lit ''Failed to send order to dry cleaner: ''
                                   @ lit ''Authenticate'')\<rparr>\<rparr>"
proof -
  have oid: "newOrderId samplePlatform = lit ''ORD-MHI3K2A1-X7Q9ZB''"
    by (simp add: samplePlatform_def)
  show ?thesis
    by (simp add: handlePickupOrderDeployed_def handlePickupOrder_def sample_schema
        sample_dry_send_rejected sendFailed_def oid Let_def)
qed

lemma empty_items_rejected:
  "handler p sendDry sendCust \<lparr>reqMethod = lit ''POST'', reqBody = Some emptyItemsBody\<rparr>
     = (errorReply 400 (lit ''Validation failed: items: At least one item is required''), [])"
proof -
  have "parseBody p (Some emptyItemsBody) = Some emptyItemsBody"
    by (simp add: parseBody_def emptyItemsBody_def bodyFalsy_def)
  moreover have "isPlainObject emptyItemsBody"
    by (simp add: emptyItemsBody_def)
  moreover have "lit ''Validation failed: ''
        @ join (lit '', '') (map renderIssue [([Key (lit ''items'')], lit ''At least one item is required'')])
      = lit ''Validation failed: items: At least one item is required''"
    by (simp add: renderIssue_def renderPath_def lit_def)
  ultimately show ?thesis
    by (simp add: handler_def empty_items_schema)
qed

lemma zero_quantity_rejected:
  "handler p sendDry sendCust \<lparr>reqMethod = lit ''POST'', reqBody = Some zeroQuantityBody\<rparr>
     = (errorReply 400
          (lit ''Validation failed: items.0.quantity: Quantity must be a positive integer''), [])"
proof -
  have "parseBody p (Some zeroQuantityBody) = Some zeroQuantityBody"
    by (simp add: parseBody_def zeroQuantityBody_def bodyFalsy_def)
  moreover have "isPlainObject zeroQuantityBody"
    by (simp add: zeroQuantityBody_def)
  moreover have "orderSchema (Some zeroQuantityBody)
      = Issues [([Key (lit ''items''), Index 0, Key (lit ''quantity'')],
                 lit ''Quantity must be a positive integer'')]"
    by (simp add: schema_eval zeroQuantityBody_def)
  moreover have "lit ''Validation failed: ''
        @ join (lit '', '')
            (map renderIssue [([Key (lit ''items''), Index 0, Key (lit ''quantity'')],
                               lit ''Quantity must be a positive integer'')])
      = lit ''Validation failed: items.0.quantity: Quantity must be a positive integer''"
    by (simp add: renderIssue_def renderPath_def showNat.simps lit_def)
  ultimately show ?thesis
    by (simp add: handler_def)
qed

text \<open>
  Claim C7 asks that every violation of the schema is answered with 400 and a message
  that names the field. That holds when the library reports issues (\<open>handler_issues\<close>,
  \<open>empty_items_rejected\<close>, \<open>zero_quantity_rejected\<close>), and what the schema
  accepts meets the conditions of the claim (\<open>accepted_order_conditions\<close>). A
  quantity given as a string that does not hold a positive integer makes the transform
  throw instead: the exception leaves the validation and the handlers answer 500.
\<close>

theorem handler_bad_string_quantity_is_500:
  "orderSchema (Some badQuantityBody) = Throws quantityZodError
   \<and> fst (handler p sendDry sendCust \<lparr>reqMethod = lit ''POST'', reqBody = Some badQuantityBody\<rparr>)
     = errorReply 500 (lit ''An unexpected server error occurred. Please try again or contact support.'')
   \<and> handlePickupOrder p sendDry sendCust (Some badQuantityBody) = internalError quantityZodError"
proof -
  have "parseBody p (Some badQuantityBody) = Some badQuantityBody"
    by (simp add: parseBody_def badQuantityBody_def bodyFalsy_def)
  moreover have "isPlainObject badQuantityBody"
    by (simp add: badQuantityBody_def)
  ultimately show ?thesis
    by (simp add: handler_def handlePickupOrder_def bad_quantity_schema unexpected_def)
qed

end
